theory Spec2Isabelle
  imports Main "HOL-Library.Log_Nat" "HOL-Library.AList"
begin

section \<open>Python values used by the unit converter\<close>

subsection \<open>Exceptions\<close>

text \<open>
  The converter raises \<^verbatim>\<open>ValueError\<close> with three different messages; each message is a
  constructor carrying what the message prints. The other constructors are the
  exceptions that the Python operators used by the converter raise themselves.
  \<^item> \<open>UnknownUnit u\<close>: \<^verbatim>\<open>ValueError(f"Unknown unit: {unit}")\<close>
  \<^item> \<open>IncompatibleDimensions fu fd tu td\<close>: \<^verbatim>\<open>ValueError(f"Incompatible dimensions: ...")\<close>
  \<^item> \<open>UnknownTemperatureUnit u\<close>: \<^verbatim>\<open>ValueError(f"Unknown temperature unit: {u}")\<close>
  \<^item> \<open>InvalidLiteral s\<close>: the \<^verbatim>\<open>ValueError\<close> of \<^verbatim>\<open>int(s)\<close> for a string that is not a number
  \<^item> \<open>ExceedsDigitLimit n\<close>: the \<^verbatim>\<open>ValueError\<close> of \<^verbatim>\<open>int(s)\<close> for a string of \<open>n\<close> digits, more
    than the 4300 that \<^verbatim>\<open>int\<close> converts
  \<^item> \<open>ZeroDivisionError\<close>: float division by zero
  \<^item> \<open>OverflowError\<close>: an int too large for a float, or \<^verbatim>\<open>**\<close> out of the range of a float
  \<^item> \<open>PowValueError\<close>: the \<^verbatim>\<open>ValueError\<close> that \<^verbatim>\<open>**\<close> raises when C's \<^verbatim>\<open>pow\<close> reports an error
    other than a range error
\<close>

datatype dim = DimL | DimM | DimT | DimTheta | DimN | DimI | DimJ

type_synonym dims = "(dim \<times> int) list"

datatype py_error =
    UnknownUnit string
  | IncompatibleDimensions string dims string dims
  | UnknownTemperatureUnit string
  | InvalidLiteral string
  | ExceedsDigitLimit nat
  | ZeroDivisionError
  | OverflowError
  | PowValueError

subsection \<open>Floats\<close>

text \<open>
  A Python float is an IEEE 754 binary64 number. A finite float is modelled by the
  rational number it denotes, the three other values by constructors. The sign of
  zero is not modelled: Python compares \<^verbatim>\<open>0.0 == -0.0\<close> as equal and no operation of the
  converter tells them apart. Addition, subtraction, multiplication and division
  compute the exact rational result and round it to the nearest binary64 number, ties
  to even (\<open>round64\<close>). Python's \<^verbatim>\<open>**\<close> calls \<^verbatim>\<open>pow\<close> of the C library, which is not
  correctly rounded and differs between platforms: it is a parameter of the model
  (see \<open>fpow\<close>).
\<close>

datatype pyfloat = Fin rat | PInf | NInf | NaN

definition pow2 :: "int \<Rightarrow> rat" where
  "pow2 e = (if 0 \<le> e then 2 ^ nat e else 1 / 2 ^ nat (- e))"

text \<open>The exponent \<open>e\<close> with \<open>2^e \<le> a < 2^(e+1)\<close>, for \<open>a > 0\<close>.\<close>

definition floor_log2 :: "rat \<Rightarrow> int" where
  "floor_log2 a =
     (if 1 \<le> a then bitlen \<lfloor>a\<rfloor> - 1
      else - bitlen (\<lceil>1 / a\<rceil> - 1))"

definition round_half_even :: "rat \<Rightarrow> int" where
  "round_half_even x =
     (let f = \<lfloor>x\<rfloor>; d = x - of_int f
      in if d < 1 / 2 then f
         else if 1 / 2 < d then f + 1
         else if even f then f else f + 1)"

text \<open>
  Rounding to binary64: 53 significant bits, exponents from -1022 (below it the
  spacing stays \<open>2^-1074\<close>, the subnormal numbers, and a result can round to zero) to
  1023 (a result that rounds to \<open>2^1024\<close> or more is infinite).
\<close>

definition round64 :: "rat \<Rightarrow> pyfloat" where
  "round64 q =
     (if q = 0 then Fin 0
      else
        let a = \<bar>q\<bar>;
            e = max (floor_log2 a) (- 1022);
            u = pow2 (e - 52);
            r = of_int (round_half_even (a / u)) * u
        in if pow2 1024 \<le> r then (if 0 < q then PInf else NInf)
           else Fin (if 0 < q then r else - r))"

text \<open>A float literal of the source, such as \<^verbatim>\<open>0.3048\<close> or \<^verbatim>\<open>1e-24\<close>.\<close>

definition lit :: "rat \<Rightarrow> pyfloat" where
  "lit q = round64 q"

fun fneg :: "pyfloat \<Rightarrow> pyfloat" where
  "fneg (Fin a) = Fin (- a)"
| "fneg PInf = NInf"
| "fneg NInf = PInf"
| "fneg NaN = NaN"

text \<open>An infinity of the sign of \<open>s\<close>; \<open>inf * 0\<close> is not a number.\<close>

definition signed_inf :: "rat \<Rightarrow> pyfloat" where
  "signed_inf s = (if s = 0 then NaN else if 0 < s then PInf else NInf)"

fun fmul :: "pyfloat \<Rightarrow> pyfloat \<Rightarrow> pyfloat" where
  "fmul (Fin a) (Fin b) = round64 (a * b)"
| "fmul NaN _ = NaN"
| "fmul _ NaN = NaN"
| "fmul (Fin a) PInf = signed_inf a"
| "fmul (Fin a) NInf = signed_inf (- a)"
| "fmul PInf (Fin b) = signed_inf b"
| "fmul NInf (Fin b) = signed_inf (- b)"
| "fmul PInf PInf = PInf"
| "fmul PInf NInf = NInf"
| "fmul NInf PInf = NInf"
| "fmul NInf NInf = PInf"

fun fadd :: "pyfloat \<Rightarrow> pyfloat \<Rightarrow> pyfloat" where
  "fadd (Fin a) (Fin b) = round64 (a + b)"
| "fadd NaN _ = NaN"
| "fadd _ NaN = NaN"
| "fadd PInf NInf = NaN"
| "fadd NInf PInf = NaN"
| "fadd PInf _ = PInf"
| "fadd NInf _ = NInf"
| "fadd _ PInf = PInf"
| "fadd _ NInf = NInf"

definition fsub :: "pyfloat \<Rightarrow> pyfloat \<Rightarrow> pyfloat" where
  "fsub x y = fadd x (fneg y)"

text \<open>
  Division of floats by a divisor that is not zero. Python never divides by zero (it
  raises instead, see \<open>fdiv\<close>), so the value chosen here for a zero divisor is
  never used.
\<close>

fun fquot :: "pyfloat \<Rightarrow> pyfloat \<Rightarrow> pyfloat" where
  "fquot (Fin a) (Fin b) = round64 (a / b)"
| "fquot NaN _ = NaN"
| "fquot _ NaN = NaN"
| "fquot (Fin a) PInf = Fin 0"
| "fquot (Fin a) NInf = Fin 0"
| "fquot PInf (Fin b) = signed_inf b"
| "fquot NInf (Fin b) = signed_inf (- b)"
| "fquot PInf PInf = NaN"
| "fquot PInf NInf = NaN"
| "fquot NInf PInf = NaN"
| "fquot NInf NInf = NaN"

text \<open>
  Python's \<^verbatim>\<open>x / y\<close> on floats raises \<^verbatim>\<open>ZeroDivisionError\<close> when \<open>y\<close> is zero, whatever
  \<open>x\<close> is.
\<close>

definition fdiv :: "pyfloat \<Rightarrow> pyfloat \<Rightarrow> py_error + pyfloat" where
  "fdiv x y = (if y = Fin 0 then Inl ZeroDivisionError else Inr (fquot x y))"

text \<open>
  C's \<^verbatim>\<open>pow\<close>, as Python calls it: on a finite base that is positive and not 1 and a
  finite exponent that is not zero. It returns a float and leaves a value in \<^verbatim>\<open>errno\<close>,
  which Python has set to zero before the call.
\<close>

datatype c_errno = ENone | ERANGE | EOther

type_synonym libm_pow = "rat \<Rightarrow> rat \<Rightarrow> pyfloat \<times> c_errno"

text \<open>
  \<^verbatim>\<open>_Py_ADJUST_ERANGE1\<close>: an infinite result counts as a range error whether or not
  \<^verbatim>\<open>pow\<close> reported it, and a range error with result zero (an underflow) does not count.
\<close>

definition adjust_erange :: "pyfloat \<Rightarrow> c_errno \<Rightarrow> c_errno" where
  "adjust_erange ix err =
     (if err = ENone then (if ix = PInf \<or> ix = NInf then ERANGE else ENone)
      else if err = ERANGE \<and> ix = Fin 0 then ENone
      else err)"

text \<open>
  Python's \<^verbatim>\<open>x ** n\<close> for a float \<open>x\<close> and a non-negative int \<open>n\<close> (\<^verbatim>\<open>float_pow\<close>): the int is
  converted to a float first (\<^verbatim>\<open>OverflowError\<close> when it is too large). Python answers
  the special cases itself: \<^verbatim>\<open>x ** 0\<close> is \<open>1.0\<close> for every \<open>x\<close>, a power of \<open>0.0\<close> is \<open>0.0\<close>, a
  power of \<open>1.0\<close> is \<open>1.0\<close>. For the rest it calls \<^verbatim>\<open>pow\<close> on the absolute value of \<open>x\<close>
  and negates the result of an odd power of a negative number; a range error raises
  \<^verbatim>\<open>OverflowError\<close>.
\<close>

definition fpow :: "libm_pow \<Rightarrow> pyfloat \<Rightarrow> nat \<Rightarrow> py_error + pyfloat" where
  "fpow cpow x n =
     (case round64 (of_nat n) of
        Fin w \<Rightarrow>
          (if w = 0 then Inr (Fin 1)
           else case x of
                  NaN \<Rightarrow> Inr NaN
                | PInf \<Rightarrow> Inr PInf
                | NInf \<Rightarrow> Inr (if odd \<lfloor>w\<rfloor> then NInf else PInf)
                | Fin a \<Rightarrow>
                    (if a = 0 then Inr (Fin 0)
                     else
                       let negate_result = (a < 0 \<and> odd \<lfloor>w\<rfloor>)
                       in if \<bar>a\<bar> = 1 then Inr (Fin (if negate_result then - 1 else 1))
                          else (case cpow \<bar>a\<bar> w of
                                  (ix, err) \<Rightarrow>
                                    (case adjust_erange ix err of
                                       ENone \<Rightarrow> Inr (if negate_result then fneg ix else ix)
                                     | ERANGE \<Rightarrow> Inl OverflowError
                                     | EOther \<Rightarrow> Inl PowValueError))))
      | _ \<Rightarrow> Inl OverflowError)"

subsection \<open>Strings\<close>

text \<open>
  A Python \<^verbatim>\<open>str\<close> is modelled as a \<open>string\<close> whose characters are the code points 0 to
  255. \<^verbatim>\<open>str.isdigit\<close> holds of the ASCII digits and of the superscript digits U+00B2,
  U+00B3 and U+00B9; \<^verbatim>\<open>int\<close> accepts the ASCII digits only.
\<close>

definition isdigit :: "char \<Rightarrow> bool" where
  "isdigit c =
     (let n = (of_char c :: nat)
      in (48 \<le> n \<and> n \<le> 57) \<or> n = 178 \<or> n = 179 \<or> n = 185)"

definition ascii_digit :: "char \<Rightarrow> bool" where
  "ascii_digit c = (let n = (of_char c :: nat) in 48 \<le> n \<and> n \<le> 57)"

text \<open>
  \<^verbatim>\<open>int(s)\<close> for a non-empty string of characters that satisfy \<^verbatim>\<open>isdigit\<close>. \<^verbatim>\<open>int\<close> counts
  the digits that the string starts with, leading zeros too, and refuses to convert
  more than 4300 of them (\<^verbatim>\<open>sys.get_int_max_str_digits()\<close>, at its default) before it
  looks at the rest of the string.
\<close>

definition int_max_str_digits :: nat where
  "int_max_str_digits = 4300"

definition py_int :: "string \<Rightarrow> py_error + nat" where
  "py_int s =
     (let digits = length (takeWhile ascii_digit s)
      in if int_max_str_digits < digits then Inl (ExceedsDigitLimit digits)
         else if s \<noteq> [] \<and> list_all ascii_digit s
         then Inr (foldl (\<lambda>acc c. 10 * acc + (of_char c - 48)) 0 s)
         else Inl (InvalidLiteral s))"

text \<open>\<^verbatim>\<open>s.split(sep)\<close> for a separator of one character.\<close>

fun split_on :: "char \<Rightarrow> string \<Rightarrow> string list" where
  "split_on sep [] = [[]]"
| "split_on sep (c # cs) =
     (if c = sep then [] # split_on sep cs
      else case split_on sep cs of
             p # ps \<Rightarrow> (c # p) # ps
           | [] \<Rightarrow> [[c]])"

definition startswith :: "string \<Rightarrow> string \<Rightarrow> bool" where
  "startswith s p = (take (length p) s = p)"

definition endswith :: "string \<Rightarrow> string \<Rightarrow> bool" where
  "endswith s p = (drop (length s - length p) s = p \<and> length p \<le> length s)"

text \<open>\<^verbatim>\<open>d.get(k, 0)\<close> on a dimension dictionary.\<close>

definition dims_get :: "dims \<Rightarrow> dim \<Rightarrow> int" where
  "dims_get d k = (case map_of d k of Some e \<Rightarrow> e | None \<Rightarrow> 0)"

section \<open>The unit tables\<close>

record unit_data =
  factor :: pyfloat
  dimensions :: dims

definition BASE_UNITS :: "(string \<times> unit_data) list" where
  "BASE_UNITS =
    [(''m'', \<lparr>factor = lit 1, dimensions = [(DimL, 1)]\<rparr>),
     (''ft'', \<lparr>factor = lit (3048 / 10000), dimensions = [(DimL, 1)]\<rparr>),
     (''in'', \<lparr>factor = lit (254 / 10000), dimensions = [(DimL, 1)]\<rparr>),
     (''g'', \<lparr>factor = lit (1 / 1000), dimensions = [(DimM, 1)]\<rparr>),
     (''kg'', \<lparr>factor = lit 1, dimensions = [(DimM, 1)]\<rparr>),
     (''lb'', \<lparr>factor = lit (453592 / 1000000), dimensions = [(DimM, 1)]\<rparr>),
     (''lbm'', \<lparr>factor = lit (453592 / 1000000), dimensions = [(DimM, 1)]\<rparr>),
     (''s'', \<lparr>factor = lit 1, dimensions = [(DimT, 1)]\<rparr>),
     (''min'', \<lparr>factor = lit 60, dimensions = [(DimT, 1)]\<rparr>),
     (''hr'', \<lparr>factor = lit 3600, dimensions = [(DimT, 1)]\<rparr>),
     (''h'', \<lparr>factor = lit 3600, dimensions = [(DimT, 1)]\<rparr>),
     (''K'', \<lparr>factor = lit 1, dimensions = [(DimTheta, 1)]\<rparr>),
     (''A'', \<lparr>factor = lit 1, dimensions = [(DimI, 1)]\<rparr>),
     (''mol'', \<lparr>factor = lit 1, dimensions = [(DimN, 1)]\<rparr>),
     (''gmol'', \<lparr>factor = lit 1, dimensions = [(DimN, 1)]\<rparr>),
     (''lbmol'', \<lparr>factor = lit (45359237 / 100000), dimensions = [(DimN, 1)]\<rparr>),
     (''cd'', \<lparr>factor = lit 1, dimensions = [(DimJ, 1)]\<rparr>)]"

definition DERIVED_UNITS :: "(string \<times> unit_data) list" where
  "DERIVED_UNITS =
    [(''N'', \<lparr>factor = lit 1, dimensions = [(DimM, 1), (DimL, 1), (DimT, - 2)]\<rparr>),
     (''lbf'', \<lparr>factor = lit (444822 / 100000), dimensions = [(DimM, 1), (DimL, 1), (DimT, - 2)]\<rparr>),
     (''Pa'', \<lparr>factor = lit 1, dimensions = [(DimM, 1), (DimL, - 1), (DimT, - 2)]\<rparr>),
     (''bar'', \<lparr>factor = lit 100000, dimensions = [(DimM, 1), (DimL, - 1), (DimT, - 2)]\<rparr>),
     (''atm'', \<lparr>factor = lit 101325, dimensions = [(DimM, 1), (DimL, - 1), (DimT, - 2)]\<rparr>),
     (''psi'', \<lparr>factor = lit (689476 / 100), dimensions = [(DimM, 1), (DimL, - 1), (DimT, - 2)]\<rparr>),
     (''torr'', \<lparr>factor = lit (133322 / 1000), dimensions = [(DimM, 1), (DimL, - 1), (DimT, - 2)]\<rparr>),
     (''mmHg'', \<lparr>factor = lit (133322 / 1000), dimensions = [(DimM, 1), (DimL, - 1), (DimT, - 2)]\<rparr>),
     (''J'', \<lparr>factor = lit 1, dimensions = [(DimM, 1), (DimL, 2), (DimT, - 2)]\<rparr>),
     (''cal'', \<lparr>factor = lit (4184 / 1000), dimensions = [(DimM, 1), (DimL, 2), (DimT, - 2)]\<rparr>),
     (''Btu'', \<lparr>factor = lit (105506 / 100), dimensions = [(DimM, 1), (DimL, 2), (DimT, - 2)]\<rparr>),
     (''kWh'', \<lparr>factor = lit 3600000, dimensions = [(DimM, 1), (DimL, 2), (DimT, - 2)]\<rparr>),
     (''W'', \<lparr>factor = lit 1, dimensions = [(DimM, 1), (DimL, 2), (DimT, - 3)]\<rparr>),
     (''hp'', \<lparr>factor = lit (7457 / 10), dimensions = [(DimM, 1), (DimL, 2), (DimT, - 3)]\<rparr>),
     (''L'', \<lparr>factor = lit (1 / 1000), dimensions = [(DimL, 3)]\<rparr>),
     (''gal'', \<lparr>factor = lit (378541 / 100000000), dimensions = [(DimL, 3)]\<rparr>),
     (''cP'', \<lparr>factor = lit (1 / 1000), dimensions = [(DimM, 1), (DimL, - 1), (DimT, - 1)]\<rparr>),
     (''P'', \<lparr>factor = lit (1 / 10), dimensions = [(DimM, 1), (DimL, - 1), (DimT, - 1)]\<rparr>)]"

text \<open>The prefixes, in the order in which the dictionary of the source lists them.\<close>

definition PREFIXES :: "(string \<times> pyfloat) list" where
  "PREFIXES =
    [(''Y'', lit (10 ^ 24)), (''Z'', lit (10 ^ 21)), (''E'', lit (10 ^ 18)),
     (''P'', lit (10 ^ 15)), (''T'', lit (10 ^ 12)), (''G'', lit (10 ^ 9)),
     (''M'', lit (10 ^ 6)), (''k'', lit (10 ^ 3)), (''h'', lit (10 ^ 2)),
     (''da'', lit 10), (''d'', lit (1 / 10)), (''c'', lit (1 / 10 ^ 2)),
     (''m'', lit (1 / 10 ^ 3)), (''mu'', lit (1 / 10 ^ 6)), (''u'', lit (1 / 10 ^ 6)),
     (''n'', lit (1 / 10 ^ 9)), (''p'', lit (1 / 10 ^ 12)), (''f'', lit (1 / 10 ^ 15)),
     (''a'', lit (1 / 10 ^ 18)), (''z'', lit (1 / 10 ^ 21)), (''y'', lit (1 / 10 ^ 24))]"

definition TEMPERATURE_UNITS :: "string set" where
  "TEMPERATURE_UNITS = {''K'', ''degC'', ''degF'', ''degR''}"

section \<open>The converter object\<close>

record converter =
  unit_dict :: "(string \<times> pyfloat) list"
  dimension_dict :: "(string \<times> dims) list"

text \<open>\<^verbatim>\<open>self.unit_dict[unit] = f; self.dimension_dict[unit] = d\<close>\<close>

definition set_unit :: "string \<Rightarrow> pyfloat \<Rightarrow> dims \<Rightarrow> converter \<Rightarrow> converter" where
  "set_unit unit f d self =
     self\<lparr>unit_dict := AList.update unit f (unit_dict self),
          dimension_dict := AList.update unit d (dimension_dict self)\<rparr>"

definition base_si_units :: "string list" where
  "base_si_units =
     [''m'', ''g'', ''s'', ''A'', ''mol'', ''gmol'', ''cd'', ''Pa'', ''J'', ''W'', ''N'', ''L'']"

text \<open>The body of the inner loop of \<^verbatim>\<open>_build_unit_dictionary\<close>.\<close>

definition add_prefixed :: "string \<Rightarrow> string \<times> pyfloat \<Rightarrow> converter \<Rightarrow> converter" where
  "add_prefixed base_unit pf self =
     (case pf of (prefix, pfactor) \<Rightarrow>
        if base_unit = ''kg'' \<and> prefix = ''k'' then self
        else if base_unit = ''gmol'' \<and> prefix = ''k'' then self
        else
          let prefixed_unit = prefix @ base_unit
          in (case map_of BASE_UNITS base_unit of
                Some data \<Rightarrow>
                  set_unit prefixed_unit (fmul (factor data) pfactor) (dimensions data) self
              | None \<Rightarrow>
                  (case map_of DERIVED_UNITS base_unit of
                     Some data \<Rightarrow>
                       set_unit prefixed_unit (fmul (factor data) pfactor) (dimensions data) self
                   | None \<Rightarrow> self)))"

definition build_unit_dictionary :: "converter \<Rightarrow> converter" where
  "build_unit_dictionary self =
     (let self = fold (\<lambda>(unit, data). set_unit unit (factor data) (dimensions data))
                   BASE_UNITS self;
          self = fold (\<lambda>(unit, data). set_unit unit (factor data) (dimensions data))
                   DERIVED_UNITS self
      in fold (\<lambda>base_unit. fold (add_prefixed base_unit) PREFIXES) base_si_units self)"

text \<open>\<^verbatim>\<open>ChemEngUnitConverter()\<close>: the object after \<^verbatim>\<open>__init__\<close>.\<close>

definition ChemEngUnitConverter :: converter where
  "ChemEngUnitConverter = build_unit_dictionary \<lparr>unit_dict = [], dimension_dict = []\<rparr>"

section \<open>Resolving one unit\<close>

fun factor_with_prefix ::
  "converter \<Rightarrow> string \<Rightarrow> (string \<times> pyfloat) list \<Rightarrow> pyfloat option" where
  "factor_with_prefix self unit [] = None"
| "factor_with_prefix self unit ((prefix, prefix_factor) # rest) =
     (if startswith unit prefix
      then case map_of (unit_dict self) (drop (length prefix) unit) of
             Some f \<Rightarrow> Some (fmul f prefix_factor)
           | None \<Rightarrow> factor_with_prefix self unit rest
      else factor_with_prefix self unit rest)"

definition get_unit_factor :: "converter \<Rightarrow> string \<Rightarrow> py_error + pyfloat" where
  "get_unit_factor self unit =
     (case map_of (unit_dict self) unit of
        Some f \<Rightarrow> Inr f
      | None \<Rightarrow>
          (case factor_with_prefix self unit PREFIXES of
             Some f \<Rightarrow> Inr f
           | None \<Rightarrow> if unit = ''kg'' then Inr (lit 1) else Inl (UnknownUnit unit)))"

fun dimensions_with_prefix ::
  "converter \<Rightarrow> string \<Rightarrow> (string \<times> pyfloat) list \<Rightarrow> dims option" where
  "dimensions_with_prefix self unit [] = None"
| "dimensions_with_prefix self unit ((prefix, prefix_factor) # rest) =
     (if startswith unit prefix
      then case map_of (dimension_dict self) (drop (length prefix) unit) of
             Some d \<Rightarrow> Some d
           | None \<Rightarrow> dimensions_with_prefix self unit rest
      else dimensions_with_prefix self unit rest)"

definition get_unit_dimensions :: "converter \<Rightarrow> string \<Rightarrow> py_error + dims" where
  "get_unit_dimensions self unit =
     (case map_of (dimension_dict self) unit of
        Some d \<Rightarrow> Inr d
      | None \<Rightarrow>
          (case dimensions_with_prefix self unit PREFIXES of
             Some d \<Rightarrow> Inr d
           | None \<Rightarrow> if unit = ''kg'' then Inr [(DimM, 1)] else Inl (UnknownUnit unit)))"

text \<open>
  The loop \<^verbatim>\<open>while i >= 0 and unit_str[i].isdigit(): i -= 1\<close>; it returns the last
  value of \<open>i\<close>.
\<close>

function scan_digits :: "string \<Rightarrow> int \<Rightarrow> int" where
  "scan_digits s i =
     (if 0 \<le> i \<and> i < int (length s) \<and> isdigit (s ! nat i)
      then scan_digits s (i - 1) else i)"
  by pat_completeness auto
termination
  by (relation "measure (\<lambda>(s, i). nat (i + 1))") auto

declare scan_digits.simps [simp del]

definition parse_simple_unit_with_dims ::
  "libm_pow \<Rightarrow> converter \<Rightarrow> string \<Rightarrow> py_error + (pyfloat \<times> dims)" where
  "parse_simple_unit_with_dims cpow self unit_str =
     (if unit_str = [] \<or> unit_str = ''1'' then Inr (lit 1, [])
      else if unit_str \<in> TEMPERATURE_UNITS \<and> (unit_str = ''K'' \<or> unit_str = ''degC'')
      then Inr (lit 1, [(DimTheta, 1)])
      else if unit_str \<in> TEMPERATURE_UNITS \<and> (unit_str = ''degF'' \<or> unit_str = ''degR'')
      then Inr (round64 (5 / 9), [(DimTheta, 1)])
      else
        let i = (if isdigit (last unit_str)
                 then scan_digits unit_str (int (length unit_str) - 1) + 1
                 else int (length unit_str))
        in (case (if isdigit (last unit_str) then py_int (drop (nat i) unit_str) else Inr 1) of
              Inl e \<Rightarrow> Inl e
            | Inr pw \<Rightarrow>
                (let base_unit = take (nat i) unit_str
                 in (case get_unit_factor self base_unit of
                       Inl e \<Rightarrow> Inl e
                     | Inr base_factor \<Rightarrow>
                         (case get_unit_dimensions self base_unit of
                            Inl e \<Rightarrow> Inl e
                          | Inr base_dims \<Rightarrow>
                              (let final_dims = map (\<lambda>(d, ex). (d, ex * int pw)) base_dims
                               in (case fpow cpow base_factor pw of
                                     Inl e \<Rightarrow> Inl e
                                   | Inr f \<Rightarrow> Inr (f, final_dims))))))))"

section \<open>Parsing a unit expression\<close>

record parts =
  numerator :: "string list"
  denominator :: "string list"

definition split_unit_expression :: "string \<Rightarrow> parts" where
  "split_unit_expression unit_expr =
     (let expr = filter (\<lambda>c. c \<noteq> CHR '' '') unit_expr
      in if CHR ''/'' \<notin> set expr then \<lparr>numerator = [expr], denominator = [''1'']\<rparr>
         else if CHR ''('' \<in> set expr \<and> CHR '')'' \<in> set expr then
           let num = takeWhile (\<lambda>c. c \<noteq> CHR ''/'') expr;
               den = tl (dropWhile (\<lambda>c. c \<noteq> CHR ''/'') expr);
               den = (if startswith den ''('' \<and> endswith den '')''
                      then butlast (tl den) else den);
               num = (if startswith num ''('' \<and> endswith num '')''
                      then butlast (tl num) else num)
           in \<lparr>numerator = [num], denominator = [den]\<rparr>
         else
           let ps = split_on CHR ''/'' expr
           in \<lparr>numerator = [hd ps],
               denominator = (if 1 < length ps then tl ps else [''1''])\<rparr>)"

text \<open>
  \<^verbatim>\<open>for dim, exp in dims.items(): acc[dim] = acc.get(dim, 0) + exp\<close>, the loop that the
  parser runs after each unit and each group.
\<close>

definition add_dims :: "dims \<Rightarrow> dims \<Rightarrow> dims" where
  "add_dims ds acc = fold (\<lambda>(d, ex) acc. AList.update d (dims_get acc d + ex) acc) ds acc"

definition sub_dims :: "dims \<Rightarrow> dims \<Rightarrow> dims" where
  "sub_dims ds acc = fold (\<lambda>(d, ex) acc. AList.update d (dims_get acc d - ex) acc) ds acc"

text \<open>\<^verbatim>\<open>for subpart in subparts\<close>, from the factor and the dimensions so far.\<close>

fun parse_subparts ::
  "libm_pow \<Rightarrow> converter \<Rightarrow> string list \<Rightarrow> pyfloat \<times> dims \<Rightarrow>
   py_error + (pyfloat \<times> dims)" where
  "parse_subparts cpow self [] acc = Inr acc"
| "parse_subparts cpow self (subpart # rest) (subfactor, subdims) =
     (case parse_simple_unit_with_dims cpow self subpart of
        Inl e \<Rightarrow> Inl e
      | Inr (f, ds) \<Rightarrow>
          parse_subparts cpow self rest (fmul subfactor f, add_dims ds subdims))"

text \<open>
  \<^verbatim>\<open>for part in parts['numerator']\<close> and \<^verbatim>\<open>for part in parts['denominator']\<close>: the source
  has the same loop twice.
\<close>

fun parse_parts ::
  "libm_pow \<Rightarrow> converter \<Rightarrow> string list \<Rightarrow> pyfloat \<times> dims \<Rightarrow>
   py_error + (pyfloat \<times> dims)" where
  "parse_parts cpow self [] acc = Inr acc"
| "parse_parts cpow self (part # rest) (side_factor, side_dims) =
     (if CHR ''.'' \<in> set part
      then case parse_subparts cpow self (split_on CHR ''.'' part) (lit 1, []) of
             Inl e \<Rightarrow> Inl e
           | Inr (subfactor, subdims) \<Rightarrow>
               parse_parts cpow self rest
                 (fmul side_factor subfactor, add_dims subdims side_dims)
      else case parse_simple_unit_with_dims cpow self part of
             Inl e \<Rightarrow> Inl e
           | Inr (f, ds) \<Rightarrow>
               parse_parts cpow self rest (fmul side_factor f, add_dims ds side_dims))"

definition parse_unit_expression_with_dims ::
  "libm_pow \<Rightarrow> converter \<Rightarrow> string \<Rightarrow> py_error + (pyfloat \<times> dims)" where
  "parse_unit_expression_with_dims cpow self unit_expr =
     (if unit_expr = [] \<or> unit_expr = ''1'' \<or> unit_expr = ''dimensionless''
      then Inr (lit 1, [])
      else if CHR ''/'' \<notin> set unit_expr \<and> CHR ''.'' \<notin> set unit_expr
      then parse_simple_unit_with_dims cpow self unit_expr
      else
        let ps = split_unit_expression unit_expr
        in (case parse_parts cpow self (numerator ps) (lit 1, []) of
              Inl e \<Rightarrow> Inl e
            | Inr (numerator_factor, numerator_dims) \<Rightarrow>
                (case parse_parts cpow self (denominator ps) (lit 1, []) of
                   Inl e \<Rightarrow> Inl e
                 | Inr (denominator_factor, denominator_dims) \<Rightarrow>
                     (let final_dims = sub_dims denominator_dims numerator_dims
                      in (case fdiv numerator_factor denominator_factor of
                            Inl e \<Rightarrow> Inl e
                          | Inr f \<Rightarrow> Inr (f, final_dims))))))"

section \<open>Converting\<close>

definition check_dimensional_compatibility :: "dims \<Rightarrow> dims \<Rightarrow> bool" where
  "check_dimensional_compatibility from_dims to_dims =
     list_all (\<lambda>d. dims_get from_dims d = dims_get to_dims d)
       (map fst from_dims @ map fst to_dims)"

definition convert_temperature :: "pyfloat \<Rightarrow> string \<Rightarrow> string \<Rightarrow> py_error + pyfloat" where
  "convert_temperature v from_unit to_unit =
     (case (if from_unit = ''K'' then Inr v
            else if from_unit = ''degC'' then Inr (fadd v (lit (27315 / 100)))
            else if from_unit = ''degF'' then
              (case fdiv (fmul (fsub v (lit 32)) (lit 5)) (lit 9) of
                 Inl e \<Rightarrow> Inl e
               | Inr x \<Rightarrow> Inr (fadd x (lit (27315 / 100))))
            else if from_unit = ''degR'' then fdiv (fmul v (lit 5)) (lit 9)
            else Inl (UnknownTemperatureUnit from_unit)) of
        Inl e \<Rightarrow> Inl e
      | Inr temp_k \<Rightarrow>
          if to_unit = ''K'' then Inr temp_k
          else if to_unit = ''degC'' then Inr (fsub temp_k (lit (27315 / 100)))
          else if to_unit = ''degF'' then
            (case fdiv (fmul (fsub temp_k (lit (27315 / 100))) (lit 9)) (lit 5) of
               Inl e \<Rightarrow> Inl e
             | Inr x \<Rightarrow> Inr (fadd x (lit 32)))
          else if to_unit = ''degR'' then fdiv (fmul temp_k (lit 9)) (lit 5)
          else Inl (UnknownTemperatureUnit to_unit))"

definition convert ::
  "libm_pow \<Rightarrow> converter \<Rightarrow> pyfloat \<Rightarrow> string \<Rightarrow> string \<Rightarrow> py_error + pyfloat" where
  "convert cpow self v from_unit to_unit =
     (if from_unit \<in> TEMPERATURE_UNITS \<and> to_unit \<in> TEMPERATURE_UNITS
      then convert_temperature v from_unit to_unit
      else (case parse_unit_expression_with_dims cpow self from_unit of
              Inl e \<Rightarrow> Inl e
            | Inr (from_factor, from_dims) \<Rightarrow>
                (case parse_unit_expression_with_dims cpow self to_unit of
                   Inl e \<Rightarrow> Inl e
                 | Inr (to_factor, to_dims) \<Rightarrow>
                     if \<not> check_dimensional_compatibility from_dims to_dims
                     then Inl (IncompatibleDimensions from_unit from_dims to_unit to_dims)
                     else (case fdiv from_factor to_factor of
                             Inl e \<Rightarrow> Inl e
                           | Inr q \<Rightarrow> Inr (fmul v q)))))"

section \<open>Notions used in the statements\<close>

subsection \<open>C's \<^verbatim>\<open>pow\<close>\<close>

text \<open>
  The one property of \<^verbatim>\<open>pow\<close> that statements about particular units rely on:
  \<^verbatim>\<open>pow(x, 1.0)\<close> is \<open>x\<close>, without an error, for every positive float \<open>x\<close>.
\<close>

definition pow_identity :: "libm_pow \<Rightarrow> bool" where
  "pow_identity cpow = (\<forall>a. 0 < a \<and> round64 a = Fin a \<longrightarrow> cpow a 1 = (Fin a, ENone))"

text \<open>
  A \<^verbatim>\<open>pow\<close> that rounds correctly, for the whole exponents that the converter uses; it
  reports a range error when the result is infinite. It stands for the C library
  where a statement needs a particular one: it has the property above, and a power too
  small for a float is zero for it as for every C library.
\<close>

definition pow_rounded :: libm_pow where
  "pow_rounded a w =
     (let r = round64 (a ^ nat \<lfloor>w\<rfloor>) in (r, if r = PInf then ERANGE else ENone))"

subsection \<open>Tokens\<close>

text \<open>The value of a string of ASCII digits, as \<^verbatim>\<open>int\<close> computes it.\<close>

definition digits_value :: "string \<Rightarrow> nat" where
  "digits_value ds = foldl (\<lambda>acc c. 10 * acc + (of_char c - 48)) 0 ds"

text \<open>
  What \<^verbatim>\<open>_parse_simple_unit_with_dims\<close> does once the base unit and the power are
  known: both lookups, then the power.
\<close>

definition resolve_power ::
  "libm_pow \<Rightarrow> converter \<Rightarrow> string \<Rightarrow> nat \<Rightarrow> py_error + (pyfloat \<times> dims)" where
  "resolve_power cpow self base_unit pw =
     (case get_unit_factor self base_unit of
        Inl e \<Rightarrow> Inl e
      | Inr base_factor \<Rightarrow>
          (case get_unit_dimensions self base_unit of
             Inl e \<Rightarrow> Inl e
           | Inr base_dims \<Rightarrow>
               (case fpow cpow base_factor pw of
                  Inl e \<Rightarrow> Inl e
                | Inr f \<Rightarrow> Inr (f, map (\<lambda>(d, ex). (d, ex * int pw)) base_dims))))"

text \<open>
  The base unit that the parser looks up for a token, which is the token without the
  digits it ends with, and these digits.
\<close>

definition base_candidate :: "string \<Rightarrow> string" where
  "base_candidate unit_str =
     take (nat (if isdigit (last unit_str)
                then scan_digits unit_str (int (length unit_str) - 1) + 1
                else int (length unit_str))) unit_str"

definition power_digits :: "string \<Rightarrow> string" where
  "power_digits unit_str =
     drop (nat (if isdigit (last unit_str)
                then scan_digits unit_str (int (length unit_str) - 1) + 1
                else int (length unit_str))) unit_str"

text \<open>
  A base unit resolves when the unit dictionary has it, or has what follows one of
  the prefixes it starts with, or when it is \<^verbatim>\<open>kg\<close>.
\<close>

definition resolvable :: "converter \<Rightarrow> string \<Rightarrow> bool" where
  "resolvable self unit =
     (map_of (unit_dict self) unit \<noteq> None \<or>
      list_ex (\<lambda>(prefix, prefix_factor).
                 startswith unit prefix \<and>
                 map_of (unit_dict self) (drop (length prefix) unit) \<noteq> None) PREFIXES \<or>
      unit = ''kg'')"

text \<open>
  A token that the resolver rejects as an unknown unit: it is not empty, not \<^verbatim>\<open>1\<close> and
  not a temperature symbol, the digits it ends with (if any) are at most 4300 ASCII
  digits, and its base unit does not resolve.
\<close>

definition unresolved :: "converter \<Rightarrow> string \<Rightarrow> bool" where
  "unresolved self tok =
     (tok \<noteq> [] \<and> tok \<noteq> ''1'' \<and> tok \<notin> TEMPERATURE_UNITS \<and>
      list_all ascii_digit (power_digits tok) \<and>
      length (power_digits tok) \<le> int_max_str_digits \<and>
      \<not> resolvable self (base_candidate tok))"

text \<open>The tokens that the parser hands to the resolver, in the order of the calls.\<close>

definition group_tokens :: "string \<Rightarrow> string list" where
  "group_tokens part = (if CHR ''.'' \<in> set part then split_on CHR ''.'' part else [part])"

definition tokens_of :: "string \<Rightarrow> string list" where
  "tokens_of unit_expr =
     (if unit_expr = [] \<or> unit_expr = ''1'' \<or> unit_expr = ''dimensionless'' then []
      else if CHR ''/'' \<notin> set unit_expr \<and> CHR ''.'' \<notin> set unit_expr then [unit_expr]
      else let ps = split_unit_expression unit_expr
           in concat (map group_tokens (numerator ps)) @
              concat (map group_tokens (denominator ps)))"

text \<open>The tokens of a list that the resolver accepts.\<close>

definition tokens_parse :: "libm_pow \<Rightarrow> converter \<Rightarrow> string list \<Rightarrow> bool" where
  "tokens_parse cpow self ts =
     list_all (\<lambda>t. case parse_simple_unit_with_dims cpow self t of
                     Inl e \<Rightarrow> False
                   | Inr r \<Rightarrow> True) ts"

subsection \<open>Temperatures\<close>

text \<open>The scale factor of a temperature symbol: the size of its degree in kelvins.\<close>

definition temperature_scale :: "string \<Rightarrow> pyfloat" where
  "temperature_scale t = (if t = ''K'' \<or> t = ''degC'' then lit 1 else round64 (5 / 9))"

text \<open>
  The affine formulas of the specification, on floats, the operations in the order in
  which the formulas are written: \<open>degC = K - 273.15\<close>, \<open>degF = (K - 273.15) * 9 / 5 + 32\<close>,
  \<open>degR = K * 9 / 5\<close>, and their inverses.
\<close>

definition toKelvin :: "pyfloat \<Rightarrow> string \<Rightarrow> pyfloat" where
  "toKelvin v u =
     (if u = ''K'' then v
      else if u = ''degC'' then fadd v (lit (27315 / 100))
      else if u = ''degF'' then
        fadd (fquot (fmul (fsub v (lit 32)) (lit 5)) (lit 9)) (lit (27315 / 100))
      else fquot (fmul v (lit 5)) (lit 9))"

definition fromKelvin :: "pyfloat \<Rightarrow> string \<Rightarrow> pyfloat" where
  "fromKelvin k u =
     (if u = ''K'' then k
      else if u = ''degC'' then fsub k (lit (27315 / 100))
      else if u = ''degF'' then
        fadd (fquot (fmul (fsub k (lit (27315 / 100))) (lit 9)) (lit 5)) (lit 32)
      else fquot (fmul k (lit 9)) (lit 5))"

subsection \<open>The writes that build the dictionaries\<close>

type_synonym unit_write = "string \<times> pyfloat \<times> dims"

definition writes_of :: "(string \<times> unit_data) list \<Rightarrow> unit_write list" where
  "writes_of us = map (\<lambda>(unit, data). (unit, factor data, dimensions data)) us"

definition prefixed_write :: "string \<Rightarrow> string \<times> pyfloat \<Rightarrow> unit_write list" where
  "prefixed_write base_unit pf =
     (case pf of (prefix, pfactor) \<Rightarrow>
        if base_unit = ''kg'' \<and> prefix = ''k'' then []
        else if base_unit = ''gmol'' \<and> prefix = ''k'' then []
        else (case map_of BASE_UNITS base_unit of
                Some data \<Rightarrow> [(prefix @ base_unit, fmul (factor data) pfactor, dimensions data)]
              | None \<Rightarrow>
                  (case map_of DERIVED_UNITS base_unit of
                     Some data \<Rightarrow>
                       [(prefix @ base_unit, fmul (factor data) pfactor, dimensions data)]
                   | None \<Rightarrow> [])))"

definition generated_writes :: "unit_write list" where
  "generated_writes =
     concat (map (\<lambda>base_unit. concat (map (prefixed_write base_unit) PREFIXES)) base_si_units)"

definition apply_writes :: "unit_write list \<Rightarrow> converter \<Rightarrow> converter" where
  "apply_writes ws self = fold (\<lambda>(unit, f, d). set_unit unit f d) ws self"

definition base_data :: "string \<Rightarrow> unit_data option" where
  "base_data b =
     (case map_of BASE_UNITS b of
        Some data \<Rightarrow> Some data
      | None \<Rightarrow> map_of DERIVED_UNITS b)"

definition generated_keys :: "string list" where
  "generated_keys =
     concat (map (\<lambda>b. map (\<lambda>p. p @ b)
                         (filter (\<lambda>p. \<not> (b = ''gmol'' \<and> p = ''k'')) (map fst PREFIXES)))
               base_si_units)"

definition fixed_writes :: "unit_write list" where
  "fixed_writes = writes_of BASE_UNITS @ writes_of DERIVED_UNITS"

subsection \<open>Rounding\<close>

lemma floor_rat_numeral_div:
  "\<lfloor>numeral a / numeral b :: rat\<rfloor> = numeral a div numeral b"
  by (metis floor_divide_of_int_eq of_int_numeral)

lemma floor_rat_one_div: "\<lfloor>1 / numeral b :: rat\<rfloor> = 1 div numeral b"
  by (metis floor_divide_of_int_eq of_int_numeral of_int_1)

lemma ceiling_rat_numeral_div:
  "\<lceil>numeral a / numeral b :: rat\<rceil> = - ((- numeral a) div numeral b)"
  unfolding ceiling_def
  by (metis floor_divide_of_int_eq of_int_numeral of_int_minus minus_divide_left)

lemma ceiling_rat_one_div: "\<lceil>1 / numeral b :: rat\<rceil> = - ((- 1) div numeral b)"
  unfolding ceiling_def
  by (metis floor_divide_of_int_eq of_int_numeral of_int_minus minus_divide_left of_int_1)

lemmas float_eval =
  floor_log2_def compute_bitlen pow2_def round_half_even_def Let_def
  floor_rat_numeral_div floor_rat_one_div ceiling_rat_numeral_div ceiling_rat_one_div

lemma round64_posI:
  assumes "0 < q" and "floor_log2 q = e" and "pow2 (max e (- 1022) - 52) = u"
    and "round_half_even (q / u) = m" and "of_int m * u = r" and "r < pow2 1024"
  shows "round64 q = Fin r"
  using assms by (simp add: round64_def Let_def)

lemma pow2_100_1024: "pow2 100 < pow2 1024"
  by (simp add: pow2_def)

lemma round64_smallI:
  assumes "0 < q" and "floor_log2 q = e"
    and "round_half_even (q / pow2 (max e (- 1022) - 52)) = m"
    and "of_int m * pow2 (max e (- 1022) - 52) = r" and "r < pow2 100"
  shows "round64 q = Fin r"
  using assms pow2_100_1024
  by (intro round64_posI [where e = e and u = "pow2 (max e (- 1022) - 52)" and m = m]) auto

lemma round64_0: "round64 0 = Fin 0"
  by (simp add: round64_def)

lemma round64_underflow:
  assumes "0 < q" and "q < pow2 (- 1075)"
  shows "round64 q = Fin 0"
proof -
  define N :: nat where "N = 1074"
  have p: "pow2 (- 1075) = 1 / 2 ^ Suc N"
    unfolding pow2_def N_def by simp
  have u: "pow2 (- 1074) = 1 / 2 ^ N"
    unfolding pow2_def N_def by simp
  have q1: "q < 1 / 2 ^ Suc N"
    using assms(2) p by simp
  have "(1::rat) \<le> 2 ^ Suc N"
    by (rule one_le_power) simp
  then have "(1::rat) / 2 ^ Suc N \<le> 1"
    by simp
  with q1 have lt1: "\<not> 1 \<le> q"
    by linarith
  have big: "(2::rat) ^ Suc N < 1 / q"
    using assms(1) q1 by (simp add: field_simps)
  have "1 / q \<le> of_int \<lceil>1 / q\<rceil>"
    by (rule le_of_int_ceiling)
  with big have "(2::rat) ^ Suc N < of_int \<lceil>1 / q\<rceil>"
    by linarith
  then have "of_int (2 ^ Suc N) < (of_int \<lceil>1 / q\<rceil> :: rat)"
    by simp
  then have "(2::int) ^ Suc N < \<lceil>1 / q\<rceil>"
    by (simp only: of_int_less_iff)
  moreover have "nat (int N + 2) - 1 = Suc N"
    by arith
  ultimately have ge: "(2::int) ^ (nat (int N + 2) - 1) \<le> \<lceil>1 / q\<rceil> - 1"
    by simp
  have "int N + 2 \<le> bitlen (\<lceil>1 / q\<rceil> - 1)"
    using ge by (subst bitlen_ge_iff_power) blast
  then have e: "floor_log2 q \<le> - 1076"
    using lt1 by (simp add: floor_log2_def N_def)
  then have m: "max (floor_log2 q) (- 1022) = - 1022"
    by simp
  define x where "x = q / pow2 (- 1074)"
  have x: "x = q * 2 ^ N"
    by (simp add: x_def u)
  have "q * 2 ^ N < (1 / 2 ^ Suc N) * 2 ^ N"
    using q1 by (intro mult_strict_right_mono) simp_all
  also have "\<dots> = 1 / 2"
    by simp
  finally have xhalf: "x < 1 / 2"
    using x by simp
  have xpos: "0 \<le> x"
    using assms(1) x by simp
  have fl: "\<lfloor>x\<rfloor> = 0"
    using xpos xhalf by (intro floor_unique) simp_all
  have r: "round_half_even x = 0"
    using xhalf by (simp add: round_half_even_def fl)
  have "(0::rat) < pow2 1024"
    by (simp add: pow2_def)
  then have np: "\<not> pow2 1024 \<le> 0"
    by simp
  have "round64 q =
        (let r = of_int (round_half_even x) * pow2 (- 1074)
         in if pow2 1024 \<le> r then PInf else Fin r)"
    using assms(1) m by (simp add: round64_def Let_def x_def)
  then show ?thesis
    using r np by (simp add: Let_def)
qed

lemma round64_overflow:
  assumes "pow2 1024 \<le> q"
  shows "round64 q = PInf"
proof -
  define M :: nat where "M = 1024"
  have p: "pow2 1024 = 2 ^ M"
    unfolding pow2_def M_def by simp
  have qbig: "(2::rat) ^ M \<le> q"
    using assms p by simp
  have one: "(1::rat) \<le> 2 ^ M"
    by (rule one_le_power) simp
  with qbig have q1: "1 \<le> q" and qpos: "0 < q"
    by linarith+
  define e where "e = floor_log2 q"
  have ee: "e = bitlen \<lfloor>q\<rfloor> - 1"
    using q1 by (simp add: e_def floor_log2_def)
  have "of_int (2 ^ M) \<le> q"
    using qbig by simp
  then have fq: "(2::int) ^ M \<le> \<lfloor>q\<rfloor>"
    by (simp only: le_floor_iff)
  have "(0::int) < 2 ^ M"
    by simp
  with fq have fpos: "0 < \<lfloor>q\<rfloor>"
    by linarith
  have "nat (int M + 1) - 1 = M"
    by arith
  then have "(2::int) ^ (nat (int M + 1) - 1) \<le> \<lfloor>q\<rfloor>"
    using fq by simp
  then have "int M + 1 \<le> bitlen \<lfloor>q\<rfloor>"
    by (subst bitlen_ge_iff_power) blast
  then have eM: "int M \<le> e"
    using ee by simp
  then have e52: "52 \<le> e"
    by (simp add: M_def)
  then have m: "max e (- 1022) = e"
    by simp
  have lower: "(2::int) ^ nat e \<le> \<lfloor>q\<rfloor>"
    using bitlen_bounds [OF fpos] ee by simp
  have "of_int ((2::int) ^ nat e) \<le> (of_int \<lfloor>q\<rfloor> :: rat)"
    using lower by (simp only: of_int_le_iff)
  also have "\<dots> \<le> q"
    by (rule of_int_floor_le)
  finally have qe: "(2::rat) ^ nat e \<le> q"
    by simp
  define u where "u = pow2 (e - 52)"
  have u: "u = 2 ^ nat (e - 52)"
    using e52 by (simp add: u_def pow2_def)
  then have upos: "0 < u"
    by simp
  have split: "(2::rat) ^ nat e = 2 ^ 52 * u"
  proof -
    have "nat e = 52 + nat (e - 52)"
      using e52 by simp
    then have "(2::rat) ^ nat e = 2 ^ (52 + nat (e - 52))"
      by simp
    then show ?thesis
      by (simp only: u power_add)
  qed
  have "2 ^ 52 * u \<le> q"
    using qe split by simp
  then have "(2::rat) ^ 52 \<le> q / u"
    using upos by (simp add: pos_le_divide_eq)
  then have "of_int (2 ^ 52) \<le> q / u"
    by simp
  then have fl: "(2::int) ^ 52 \<le> \<lfloor>q / u\<rfloor>"
    by (simp only: le_floor_iff)
  have "\<lfloor>q / u\<rfloor> \<le> round_half_even (q / u)"
    by (simp add: round_half_even_def Let_def)
  with fl have "(2::int) ^ 52 \<le> round_half_even (q / u)"
    by linarith
  then have "of_int ((2::int) ^ 52) \<le> (of_int (round_half_even (q / u)) :: rat)"
    by (simp only: of_int_le_iff)
  then have "of_int ((2::int) ^ 52) * u \<le> of_int (round_half_even (q / u)) * u"
    using upos by (intro mult_right_mono) simp_all
  then have a: "2 ^ 52 * u \<le> of_int (round_half_even (q / u)) * u"
    by simp
  have "(2::rat) ^ M \<le> 2 ^ nat e"
    using eM by (intro power_increasing) simp_all
  then have b: "pow2 1024 \<le> 2 ^ 52 * u"
    using split p by simp
  from a b have "pow2 1024 \<le> of_int (round_half_even (q / u)) * u"
    by linarith
  moreover have "round64 q =
        (let r = of_int (round_half_even (q / u)) * u
         in if pow2 1024 \<le> r then PInf else Fin r)"
    using qpos m by (simp add: round64_def Let_def e_def [symmetric] u_def [symmetric])
  ultimately show ?thesis
    by (simp add: Let_def)
qed

lemma r64_1: "round64 (1) = Fin (1)"
  by (rule round64_smallI [where e = "0" and m = "4503599627370496"]) (simp_all add: float_eval)

lemma r64_2: "round64 (1 / 1000) = Fin (1152921504606847 / 1152921504606846976)"
  by (rule round64_smallI [where e = "- 10" and m = "4611686018427388"]) (simp_all add: float_eval)

lemma r64_3: "round64 (1000000000000000000000000) = Fin (999999999999999983222784)"
  by (rule round64_smallI [where e = "79" and m = "7450580596923828"]) (simp_all add: float_eval)

lemma r64_4: "round64 (999999999999999983222784) = Fin (999999999999999983222784)"
  by (rule round64_smallI [where e = "79" and m = "7450580596923828"]) (simp_all add: float_eval)

lemma r64_5: "round64 (2147483648000000008674686562579 / 2147483648) = Fin (1000000000000000000000)"
  by (rule round64_smallI [where e = "69" and m = "7629394531250000"]) (simp_all add: float_eval)

lemma r64_6: "round64 (1000000000000000000000) = Fin (1000000000000000000000)"
  by (rule round64_smallI [where e = "69" and m = "7629394531250000"]) (simp_all add: float_eval)

lemma r64_7: "round64 (1152921504606847 / 1152921504606846976) = Fin (1152921504606847 / 1152921504606846976)"
  by (rule round64_smallI [where e = "- 10" and m = "4611686018427388"]) (simp_all add: float_eval)

lemma r64_8: "round64 (1152921504606846976000000000000000000000 / 1152921504606847) = Fin (999999999999999983222784)"
  by (rule round64_smallI [where e = "79" and m = "7450580596923828"]) (simp_all add: float_eval)

lemma r64_9: "round64 (549755813888000011444091796875 / 549755813888) = Fin (1000000000000000000)"
  by (rule round64_smallI [where e = "59" and m = "7812500000000000"]) (simp_all add: float_eval)

lemma r64_10: "round64 (1000000000000000000) = Fin (1000000000000000000)"
  by (rule round64_smallI [where e = "59" and m = "7812500000000000"]) (simp_all add: float_eval)

lemma r64_11: "round64 (1152921504606846976000000000000000000 / 1152921504606847) = Fin (1000000000000000000000)"
  by (rule round64_smallI [where e = "69" and m = "7629394531250000"]) (simp_all add: float_eval)

lemma r64_12: "round64 (4398046511104000091552734375 / 4398046511104) = Fin (1000000000000000)"
  by (rule round64_smallI [where e = "49" and m = "8000000000000000"]) (simp_all add: float_eval)

lemma r64_13: "round64 (1000000000000000) = Fin (1000000000000000)"
  by (rule round64_smallI [where e = "49" and m = "8000000000000000"]) (simp_all add: float_eval)

lemma r64_14: "round64 (1152921504606846976000000000000000 / 1152921504606847) = Fin (1000000000000000000)"
  by (rule round64_smallI [where e = "59" and m = "7812500000000000"]) (simp_all add: float_eval)

lemma r64_15: "round64 (35184372088832000732421875 / 35184372088832) = Fin (1000000000000)"
  by (rule round64_smallI [where e = "39" and m = "8192000000000000"]) (simp_all add: float_eval)

lemma r64_16: "round64 (1000000000000) = Fin (1000000000000)"
  by (rule round64_smallI [where e = "39" and m = "8192000000000000"]) (simp_all add: float_eval)

lemma r64_17: "round64 (1152921504606846976000000000000 / 1152921504606847) = Fin (1000000000000000)"
  by (rule round64_smallI [where e = "49" and m = "8000000000000000"]) (simp_all add: float_eval)

lemma r64_18: "round64 (281474976710656005859375 / 281474976710656) = Fin (1000000000)"
  by (rule round64_smallI [where e = "29" and m = "8388608000000000"]) (simp_all add: float_eval)

lemma r64_19: "round64 (1000000000) = Fin (1000000000)"
  by (rule round64_smallI [where e = "29" and m = "8388608000000000"]) (simp_all add: float_eval)

lemma r64_20: "round64 (1152921504606846976000000000 / 1152921504606847) = Fin (1000000000000)"
  by (rule round64_smallI [where e = "39" and m = "8192000000000000"]) (simp_all add: float_eval)

lemma r64_21: "round64 (2251799813685248046875 / 2251799813685248) = Fin (1000000)"
  by (rule round64_smallI [where e = "19" and m = "8589934592000000"]) (simp_all add: float_eval)

lemma r64_22: "round64 (1000000) = Fin (1000000)"
  by (rule round64_smallI [where e = "19" and m = "8589934592000000"]) (simp_all add: float_eval)

lemma r64_23: "round64 (1152921504606846976000000 / 1152921504606847) = Fin (1000000000)"
  by (rule round64_smallI [where e = "29" and m = "8388608000000000"]) (simp_all add: float_eval)

lemma r64_24: "round64 (18014398509481984375 / 18014398509481984) = Fin (1000)"
  by (rule round64_smallI [where e = "9" and m = "8796093022208000"]) (simp_all add: float_eval)

lemma r64_25: "round64 (1000) = Fin (1000)"
  by (rule round64_smallI [where e = "9" and m = "8796093022208000"]) (simp_all add: float_eval)

lemma r64_26: "round64 (1152921504606846976000 / 1152921504606847) = Fin (1000000)"
  by (rule round64_smallI [where e = "19" and m = "8589934592000000"]) (simp_all add: float_eval)

lemma r64_27: "round64 (144115188075855875 / 144115188075855872) = Fin (1)"
  by (rule round64_smallI [where e = "0" and m = "4503599627370496"]) (simp_all add: float_eval)

lemma r64_28: "round64 (1152921504606846976 / 1152921504606847) = Fin (1000)"
  by (rule round64_smallI [where e = "9" and m = "8796093022208000"]) (simp_all add: float_eval)

lemma r64_29: "round64 (100) = Fin (100)"
  by (rule round64_smallI [where e = "6" and m = "7036874417766400"]) (simp_all add: float_eval)

lemma r64_30: "round64 (28823037615171175 / 288230376151711744) = Fin (3602879701896397 / 36028797018963968)"
  by (rule round64_smallI [where e = "- 4" and m = "7205759403792794"]) (simp_all add: float_eval)

lemma r64_31: "round64 (3602879701896397 / 36028797018963968) = Fin (3602879701896397 / 36028797018963968)"
  by (rule round64_smallI [where e = "- 4" and m = "7205759403792794"]) (simp_all add: float_eval)

lemma r64_32: "round64 (115292150460684704 / 1152921504606847) = Fin (100)"
  by (rule round64_smallI [where e = "6" and m = "7036874417766400"]) (simp_all add: float_eval)

lemma r64_33: "round64 (10) = Fin (10)"
  by (rule round64_smallI [where e = "3" and m = "5629499534213120"]) (simp_all add: float_eval)

lemma r64_34: "round64 (5764607523034235 / 576460752303423488) = Fin (5764607523034235 / 576460752303423488)"
  by (rule round64_smallI [where e = "- 7" and m = "5764607523034235"]) (simp_all add: float_eval)

lemma r64_35: "round64 (1 / 10) = Fin (3602879701896397 / 36028797018963968)"
  by (rule round64_smallI [where e = "- 4" and m = "7205759403792794"]) (simp_all add: float_eval)

lemma r64_36: "round64 (4153837486827862419877810830259 / 41538374868278621028243970633760768) = Fin (7378697629483821 / 73786976294838206464)"
  by (rule round64_smallI [where e = "- 14" and m = "7378697629483821"]) (simp_all add: float_eval)

lemma r64_37: "round64 (7378697629483821 / 73786976294838206464) = Fin (7378697629483821 / 73786976294838206464)"
  by (rule round64_smallI [where e = "- 14" and m = "7378697629483821"]) (simp_all add: float_eval)

lemma r64_38: "round64 (7378697629483821 / 73786976294838208) = Fin (3602879701896397 / 36028797018963968)"
  by (rule round64_smallI [where e = "- 4" and m = "7205759403792794"]) (simp_all add: float_eval)

lemma r64_39: "round64 (1 / 100) = Fin (5764607523034235 / 576460752303423488)"
  by (rule round64_smallI [where e = "- 7" and m = "5764607523034235"]) (simp_all add: float_eval)

lemma r64_40: "round64 (6646139978924579641220196407045 / 664613997892457936451903530140172288) = Fin (5902958103587057 / 590295810358705651712)"
  by (rule round64_smallI [where e = "- 17" and m = "5902958103587057"]) (simp_all add: float_eval)

lemma r64_41: "round64 (5902958103587057 / 590295810358705651712) = Fin (5902958103587057 / 590295810358705651712)"
  by (rule round64_smallI [where e = "- 17" and m = "5902958103587057"]) (simp_all add: float_eval)

lemma r64_42: "round64 (5902958103587057 / 590295810358705664) = Fin (5764607523034235 / 576460752303423488)"
  by (rule round64_smallI [where e = "- 7" and m = "5764607523034235"]) (simp_all add: float_eval)

lemma r64_43: "round64 (1329227995784915928244039281409 / 1329227995784915872903807060280344576) = Fin (4722366482869645 / 4722366482869645213696)"
  by (rule round64_smallI [where e = "- 20" and m = "4722366482869645"]) (simp_all add: float_eval)

lemma r64_44: "round64 (4722366482869645 / 4722366482869645213696) = Fin (4722366482869645 / 4722366482869645213696)"
  by (rule round64_smallI [where e = "- 20" and m = "4722366482869645"]) (simp_all add: float_eval)

lemma r64_45: "round64 (4722366482869645 / 4722366482869645312) = Fin (1152921504606847 / 1152921504606846976)"
  by (rule round64_smallI [where e = "- 10" and m = "4611686018427388"]) (simp_all add: float_eval)

lemma r64_46: "round64 (1 / 1000000) = Fin (4722366482869645 / 4722366482869645213696)"
  by (rule round64_smallI [where e = "- 20" and m = "4722366482869645"]) (simp_all add: float_eval)

lemma r64_47: "round64 (5444517870735015282376075459315 / 5444517870735015415413993718908291383296) = Fin (4835703278458517 / 4835703278458516698824704)"
  by (rule round64_smallI [where e = "- 30" and m = "4835703278458517"]) (simp_all add: float_eval)

lemma r64_48: "round64 (4835703278458517 / 4835703278458516698824704) = Fin (4835703278458517 / 4835703278458516698824704)"
  by (rule round64_smallI [where e = "- 30" and m = "4835703278458517"]) (simp_all add: float_eval)

lemma r64_49: "round64 (4835703278458517 / 4835703278458516799488) = Fin (4722366482869645 / 4722366482869645213696)"
  by (rule round64_smallI [where e = "- 20" and m = "4722366482869645"]) (simp_all add: float_eval)

lemma r64_50: "round64 (1 / 1000000000) = Fin (4835703278458517 / 4835703278458516698824704)"
  by (rule round64_smallI [where e = "- 30" and m = "4835703278458517"]) (simp_all add: float_eval)

lemma r64_51: "round64 (5575186299632656248672283665899 / 5575186299632655785383929568162090376495104) = Fin (2475880078570761 / 2475880078570760549798248448)"
  by (rule round64_smallI [where e = "- 40" and m = "4951760157141522"]) (simp_all add: float_eval)

lemma r64_52: "round64 (2475880078570761 / 2475880078570760549798248448) = Fin (2475880078570761 / 2475880078570760549798248448)"
  by (rule round64_smallI [where e = "- 40" and m = "4951760157141522"]) (simp_all add: float_eval)

lemma r64_53: "round64 (2475880078570761 / 2475880078570760601337856) = Fin (4835703278458517 / 4835703278458516698824704)"
  by (rule round64_smallI [where e = "- 30" and m = "4835703278458517"]) (simp_all add: float_eval)

lemma r64_54: "round64 (1 / 1000000000000) = Fin (4951760157141521 / 4951760157141521099596496896)"
  by (rule round64_smallI [where e = "- 40" and m = "4951760157141521"]) (simp_all add: float_eval)

lemma r64_55: "round64 (4951760157141521 / 4951760157141521099596496896) = Fin (4951760157141521 / 4951760157141521099596496896)"
  by (rule round64_smallI [where e = "- 40" and m = "4951760157141521"]) (simp_all add: float_eval)

lemma r64_56: "round64 (5708990770823839528248444594287 / 5708990770823839524233143877797980545530986496) = Fin (2535301200456459 / 2535301200456458802993406410752)"
  by (rule round64_smallI [where e = "- 50" and m = "5070602400912918"]) (simp_all add: float_eval)

lemma r64_57: "round64 (2535301200456459 / 2535301200456458802993406410752) = Fin (2535301200456459 / 2535301200456458802993406410752)"
  by (rule round64_smallI [where e = "- 50" and m = "5070602400912918"]) (simp_all add: float_eval)

lemma r64_58: "round64 (2535301200456459 / 2535301200456458855769964544) = Fin (4951760157141521 / 4951760157141521099596496896)"
  by (rule round64_smallI [where e = "- 40" and m = "4951760157141521"]) (simp_all add: float_eval)

lemma r64_59: "round64 (1 / 1000000000000000) = Fin (2535301200456459 / 2535301200456458802993406410752)"
  by (rule round64_smallI [where e = "- 50" and m = "5070602400912918"]) (simp_all add: float_eval)

lemma r64_60: "round64 (2923003274661806124387736774773 / 2923003274661805836407369665432566039311865085952) = Fin (1298074214633707 / 1298074214633706907132624082305024)"
  by (rule round64_smallI [where e = "- 60" and m = "5192296858534828"]) (simp_all add: float_eval)

lemma r64_61: "round64 (1298074214633707 / 1298074214633706907132624082305024) = Fin (1298074214633707 / 1298074214633706907132624082305024)"
  by (rule round64_smallI [where e = "- 60" and m = "5192296858534828"]) (simp_all add: float_eval)

lemma r64_62: "round64 (1298074214633707 / 1298074214633706934154221846528) = Fin (2535301200456459 / 2535301200456458802993406410752)"
  by (rule round64_smallI [where e = "- 50" and m = "5070602400912918"]) (simp_all add: float_eval)

lemma r64_63: "round64 (1 / 1000000000000000000) = Fin (1298074214633707 / 1298074214633706907132624082305024)"
  by (rule round64_smallI [where e = "- 60" and m = "5192296858534828"]) (simp_all add: float_eval)

lemma r64_64: "round64 (1496577676626844726463149191829 / 1496577676626844588240573268701473812127674924007424) = Fin (332306998946229 / 332306998946228968225951765070086144)"
  by (rule round64_smallI [where e = "- 70" and m = "5316911983139664"]) (simp_all add: float_eval)

lemma r64_65: "round64 (332306998946229 / 332306998946228968225951765070086144) = Fin (332306998946229 / 332306998946228968225951765070086144)"
  by (rule round64_smallI [where e = "- 70" and m = "5316911983139664"]) (simp_all add: float_eval)

lemma r64_66: "round64 (332306998946229 / 332306998946228975143480792711168) = Fin (1298074214633707 / 1298074214633706907132624082305024)"
  by (rule round64_smallI [where e = "- 60" and m = "5192296858534828"]) (simp_all add: float_eval)

lemma r64_67: "round64 (1 / 1000000000000000000000) = Fin (5316911983139663 / 5316911983139663491615228241121378304)"
  by (rule round64_smallI [where e = "- 70" and m = "5316911983139663"]) (simp_all add: float_eval)

lemma r64_68: "round64 (5316911983139663 / 5316911983139663491615228241121378304) = Fin (5316911983139663 / 5316911983139663491615228241121378304)"
  by (rule round64_smallI [where e = "- 70" and m = "5316911983139663"]) (simp_all add: float_eval)

lemma r64_69: "round64 (6129982163463554994245507072561 / 6129982163463555433433388108601236734474956488734408704) = Fin (5444517870735015 / 5444517870735015415413993718908291383296)"
  by (rule round64_smallI [where e = "- 80" and m = "5444517870735015"]) (simp_all add: float_eval)

lemma r64_70: "round64 (5444517870735015 / 5444517870735015415413993718908291383296) = Fin (5444517870735015 / 5444517870735015415413993718908291383296)"
  by (rule round64_smallI [where e = "- 80" and m = "5444517870735015"]) (simp_all add: float_eval)

lemma r64_71: "round64 (5444517870735015 / 5444517870735015528750789307779776512) = Fin (5316911983139663 / 5316911983139663491615228241121378304)"
  by (rule round64_smallI [where e = "- 70" and m = "5316911983139663"]) (simp_all add: float_eval)

lemma r64_72: "round64 (1 / 1000000000000000000000000) = Fin (5444517870735015 / 5444517870735015415413993718908291383296)"
  by (rule round64_smallI [where e = "- 80" and m = "5444517870735015"]) (simp_all add: float_eval)

lemma r64_73: "round64 (6277101735386680415564491647705 / 6277101735386680763835789423207666416102355444464034512896) = Fin (5575186299632655 / 5575186299632655785383929568162090376495104)"
  by (rule round64_smallI [where e = "- 90" and m = "5575186299632655"]) (simp_all add: float_eval)

lemma r64_74: "round64 (5575186299632655 / 5575186299632655785383929568162090376495104) = Fin (5575186299632655 / 5575186299632655785383929568162090376495104)"
  by (rule round64_smallI [where e = "- 90" and m = "5575186299632655"]) (simp_all add: float_eval)

lemma r64_75: "round64 (5575186299632655 / 5575186299632655901440808251166491148288) = Fin (5444517870735015 / 5444517870735015415413993718908291383296)"
  by (rule round64_smallI [where e = "- 80" and m = "5444517870735015"]) (simp_all add: float_eval)

lemma r64_76: "round64 (14) = Fin (14)"
  by (rule round64_smallI [where e = "3" and m = "7881299347898368"]) (simp_all add: float_eval)

lemma r64_77: "round64 (5463 / 20) = Fin (2402652809016115 / 8796093022208)"
  by (rule round64_smallI [where e = "8" and m = "4805305618032230"]) (simp_all add: float_eval)

lemma r64_78: "round64 (32) = Fin (32)"
  by (rule round64_smallI [where e = "5" and m = "4503599627370496"]) (simp_all add: float_eval)

lemma r64_79: "round64 (5) = Fin (5)"
  by (rule round64_smallI [where e = "2" and m = "5629499534213120"]) (simp_all add: float_eval)

lemma r64_80: "round64 (9) = Fin (9)"
  by (rule round64_smallI [where e = "3" and m = "5066549580791808"]) (simp_all add: float_eval)

lemma r64_81: "round64 (2402652809016115 / 8796093022208) = Fin (2402652809016115 / 8796093022208)"
  by (rule round64_smallI [where e = "8" and m = "4805305618032230"]) (simp_all add: float_eval)

lemma r64_83: "round64 (3282262111236915 / 8796093022208) = Fin (3282262111236915 / 8796093022208)"
  by (rule round64_smallI [where e = "8" and m = "6564524222473830"]) (simp_all add: float_eval)

lemma r64_84: "round64 (900) = Fin (900)"
  by (rule round64_smallI [where e = "9" and m = "7916483719987200"]) (simp_all add: float_eval)

lemma r64_85: "round64 (180) = Fin (180)"
  by (rule round64_smallI [where e = "7" and m = "6333186975989760"]) (simp_all add: float_eval)

lemma r64_86: "round64 (212) = Fin (212)"
  by (rule round64_smallI [where e = "7" and m = "7459086882832384"]) (simp_all add: float_eval)

lemma r64_87: "round64 (2) = Fin (2)"
  by (rule round64_smallI [where e = "1" and m = "4503599627370496"]) (simp_all add: float_eval)

lemma r64_88: "round64 (5 / 9) = Fin (2501999792983609 / 4503599627370496)"
  by (rule round64_smallI [where e = "- 1" and m = "5003999585967218"]) (simp_all add: float_eval)

lemmas round64_values = round64_0 r64_1 r64_2 r64_3 r64_4 r64_5 r64_6 r64_7 r64_8 r64_9 r64_10 r64_11 r64_12 r64_13 r64_14 r64_15 r64_16 r64_17 r64_18 r64_19 r64_20 r64_21 r64_22 r64_23 r64_24 r64_25 r64_26 r64_27 r64_28 r64_29 r64_30 r64_31 r64_32 r64_33 r64_34 r64_35 r64_36 r64_37 r64_38 r64_39 r64_40 r64_41 r64_42 r64_43 r64_44 r64_45 r64_46 r64_47 r64_48 r64_49 r64_50 r64_51 r64_52 r64_53 r64_54 r64_55 r64_56 r64_57 r64_58 r64_59 r64_60 r64_61 r64_62 r64_63 r64_64 r64_65 r64_66 r64_67 r64_68 r64_69 r64_70 r64_71 r64_72 r64_73 r64_74 r64_75 r64_76 r64_77 r64_78 r64_79 r64_80 r64_81 r64_83 r64_84 r64_85 r64_86 r64_87 r64_88

subsection \<open>Powers\<close>

lemma fpow_unit:
  assumes "round64 (of_nat n) = Fin w"
  shows "fpow cpow (Fin 1) n = Inr (Fin 1)"
  using assms by (simp add: fpow_def)

lemma fpow_Suc_0:
  assumes "pow_identity cpow" and "0 < a" and "round64 a = Fin a"
  shows "fpow cpow (Fin a) (Suc 0) = Inr (Fin a)"
proof -
  have "cpow a 1 = (Fin a, ENone)"
    using assms by (simp add: pow_identity_def)
  then show ?thesis
    using assms(2) by (simp add: fpow_def r64_1 adjust_erange_def Let_def)
qed

lemma pow_identity_pow_rounded: "pow_identity pow_rounded"
  by (simp add: pow_identity_def pow_rounded_def)

lemma fpow_yocto_14:
  "fpow pow_rounded (Fin (5444517870735015 / 5444517870735015415413993718908291383296)) 14 =
     Inr (Fin 0)"
proof -
  let ?a = "5444517870735015 / 5444517870735015415413993718908291383296 :: rat"
  have w: "round64 (of_nat 14) = Fin 14"
    by (simp add: round64_values)
  have fl: "nat \<lfloor>14 :: rat\<rfloor> = 14"
    by simp
  have z: "round64 (?a ^ 14) = Fin 0"
    by (rule round64_underflow) (simp_all add: pow2_def power_divide)
  have a: "\<bar>?a\<bar> = ?a" "?a \<noteq> 0" "?a \<noteq> 1" "\<not> ?a < 0"
    by simp_all
  have "pow_rounded ?a 14 = (Fin 0, ENone)"
    unfolding pow_rounded_def fl z by simp
  then show ?thesis
    unfolding fpow_def w using a by (simp add: adjust_erange_def)
qed

subsection \<open>More roundings\<close>

lemma r64x_1: "round64 (2501999792983609 / 4503599627370496) = Fin (2501999792983609 / 4503599627370496)"
  by (rule round64_smallI [where e = "- 1" and m = "5003999585967218"]) (simp_all add: float_eval)

lemma r64x_2: "round64 (4503599627370496 / 2501999792983609) = Fin (2026619832316723 / 1125899906842624)"
  by (rule round64_smallI [where e = "0" and m = "8106479329266892"]) (simp_all add: float_eval)

lemma r64x_3: "round64 (2026619832316723 / 1125899906842624) = Fin (2026619832316723 / 1125899906842624)"
  by (rule round64_smallI [where e = "0" and m = "8106479329266892"]) (simp_all add: float_eval)

lemma r64x_4: "round64 (50665495807918075 / 281474976710656) = Fin (6333186975989759 / 35184372088832)"
  by (rule round64_smallI [where e = "7" and m = "6333186975989759"]) (simp_all add: float_eval)

lemmas round64_more = r64x_1 r64x_2 r64x_3 r64x_4

section \<open>Properties\<close>

subsection \<open>Dimension vectors and division\<close>

lemma dims_get_absent:
  assumes "d \<notin> fst ` set ds"
  shows "dims_get ds d = 0"
proof -
  from assms have "map_of ds d = None"
    by (simp add: map_of_eq_None_iff)
  then show ?thesis
    by (simp add: dims_get_def)
qed

lemma check_dimensional_compatibility_iff:
  "check_dimensional_compatibility fd td \<longleftrightarrow> (\<forall>d. dims_get fd d = dims_get td d)"
proof
  assume c: "check_dimensional_compatibility fd td"
  show "\<forall>d. dims_get fd d = dims_get td d"
  proof
    fix d
    show "dims_get fd d = dims_get td d"
    proof (cases "d \<in> fst ` set fd \<union> fst ` set td")
      case True
      with c show ?thesis
        by (auto simp: check_dimensional_compatibility_def list_all_iff)
    next
      case False
      then show ?thesis by (simp add: dims_get_absent)
    qed
  qed
next
  assume "\<forall>d. dims_get fd d = dims_get td d"
  then show "check_dimensional_compatibility fd td"
    by (simp add: check_dimensional_compatibility_def list_all_iff)
qed

lemma fdiv_nonzero: "y \<noteq> Fin 0 \<Longrightarrow> \<exists>q. fdiv x y = Inr q"
  by (simp add: fdiv_def)

lemma fdiv_zero: "fdiv x (Fin 0) = Inl ZeroDivisionError"
  by (simp add: fdiv_def)

lemma convert_not_both:
  assumes "\<not> (from_unit \<in> TEMPERATURE_UNITS \<and> to_unit \<in> TEMPERATURE_UNITS)"
  shows "convert cpow self v from_unit to_unit =
     (case parse_unit_expression_with_dims cpow self from_unit of
        Inl e \<Rightarrow> Inl e
      | Inr (from_factor, from_dims) \<Rightarrow>
          (case parse_unit_expression_with_dims cpow self to_unit of
             Inl e \<Rightarrow> Inl e
           | Inr (to_factor, to_dims) \<Rightarrow>
               if \<not> check_dimensional_compatibility from_dims to_dims
               then Inl (IncompatibleDimensions from_unit from_dims to_unit to_dims)
               else (case fdiv from_factor to_factor of
                       Inl e \<Rightarrow> Inl e
                     | Inr q \<Rightarrow> Inr (fmul v q))))"
  unfolding convert_def using assms by (rule if_not_P)

subsection \<open>Power suffixes\<close>

lemma ascii_digit_isdigit: "ascii_digit c \<Longrightarrow> isdigit c"
  by (simp add: ascii_digit_def isdigit_def Let_def)

lemma scan_digits_stop:
  "i < 0 \<or> int (length s) \<le> i \<or> \<not> isdigit (s ! nat i) \<Longrightarrow> scan_digits s i = i"
  by (subst scan_digits.simps) auto

lemma scan_digits_step:
  "0 \<le> i \<Longrightarrow> i < int (length s) \<Longrightarrow> isdigit (s ! nat i) \<Longrightarrow>
   scan_digits s i = scan_digits s (i - 1)"
  by (subst scan_digits.simps) simp

lemma scan_digits_suffix:
  assumes "list_all isdigit ds" and "u = [] \<or> \<not> isdigit (last u)"
  shows "scan_digits (u @ ds @ rest) (int (length (u @ ds)) - 1) = int (length u) - 1"
  using assms(1)
proof (induction ds arbitrary: rest rule: rev_induct)
  case Nil
  show ?case
  proof (cases "u = []")
    case True
    have "scan_digits rest (- 1) = - 1"
      by (rule scan_digits_stop) simp
    with True show ?thesis by simp
  next
    case False
    with assms(2) have nd: "\<not> isdigit (last u)" by simp
    have n: "nat (int (length u) - 1) = length u - 1"
      by simp
    have "(u @ rest) ! (length u - 1) = last u"
      using False by (simp add: nth_append last_conv_nth)
    with nd n have "\<not> isdigit ((u @ rest) ! nat (int (length u) - 1))"
      by simp
    then have "scan_digits (u @ rest) (int (length u) - 1) = int (length u) - 1"
      by (intro scan_digits_stop) blast
    then show ?thesis by simp
  qed
next
  case (snoc c ds)
  then have c: "isdigit c" and ds: "list_all isdigit ds" by simp_all
  let ?s = "u @ (ds @ [c]) @ rest"
  have n: "nat (int (length u + length ds)) = length (u @ ds)"
    by simp
  have "?s ! length (u @ ds) = ((u @ ds) @ c # rest) ! length (u @ ds)"
    by simp
  also have "\<dots> = c"
    by (rule nth_append_length)
  finally have idx: "?s ! nat (int (length u + length ds)) = c"
    using n by simp
  have "scan_digits ?s (int (length u + length ds))
        = scan_digits ?s (int (length u + length ds) - 1)"
  proof (rule scan_digits_step)
    show "0 \<le> int (length u + length ds)" by simp
    show "int (length u + length ds) < int (length ?s)" by simp
    show "isdigit (?s ! nat (int (length u + length ds)))" using c idx by simp
  qed
  moreover have "?s = u @ ds @ ([c] @ rest)"
    by simp
  moreover have "int (length u + length ds) - 1 = int (length (u @ ds)) - 1"
    by simp
  moreover have "int (length (u @ ds @ [c])) - 1 = int (length u + length ds)"
    by simp
  ultimately show ?case
    using snoc.IH [OF ds, of "[c] @ rest"] by (simp only:)
qed

lemma scan_digits_token:
  assumes "list_all isdigit ds" and "u = [] \<or> \<not> isdigit (last u)"
  shows "scan_digits (u @ ds) (int (length (u @ ds)) - 1) + 1 = int (length u)"
  using scan_digits_suffix [OF assms, of "[]"] by simp

lemma temperature_last_not_digit:
  "t \<in> TEMPERATURE_UNITS \<Longrightarrow> \<not> isdigit (last t)"
  by (auto simp: TEMPERATURE_UNITS_def isdigit_def)

lemma parse_simple_with_power:
  assumes "ds \<noteq> []" and "list_all ascii_digit ds" and "u = [] \<or> \<not> isdigit (last u)"
    and "u @ ds \<noteq> ''1''"
    and "length ds \<le> int_max_str_digits"
  shows "parse_simple_unit_with_dims cpow self (u @ ds) =
           resolve_power cpow self u (digits_value ds)"
proof -
  have digs: "list_all isdigit ds"
    using assms(2) by (simp add: list_all_iff ascii_digit_isdigit)
  have last: "isdigit (last (u @ ds))"
    using assms(1) digs by (simp add: list_all_iff)
  then have notemp: "u @ ds \<notin> TEMPERATURE_UNITS"
    using temperature_last_not_digit by blast
  have i: "scan_digits (u @ ds) (int (length (u @ ds)) - 1) + 1 = int (length u)"
    using scan_digits_token [OF digs assms(3)] .
  have tw: "takeWhile ascii_digit ds = ds"
    using assms(2) by (simp add: list_all_iff)
  have int: "py_int ds = Inr (digits_value ds)"
    using assms(1,2,5) by (simp add: py_int_def digits_value_def tw Let_def)
  show ?thesis
    unfolding parse_simple_unit_with_dims_def resolve_power_def Let_def
    using assms(1,4) last notemp int
    by (simp add: i del: length_append cong: sum.case_cong)
qed

lemma parse_simple_no_power:
  assumes "u \<noteq> []" and "\<not> isdigit (last u)" and "u \<notin> TEMPERATURE_UNITS"
  shows "parse_simple_unit_with_dims cpow self u = resolve_power cpow self u 1"
proof -
  have "u \<noteq> ''1''"
  proof
    assume "u = ''1''"
    then have "isdigit (last u)" by (simp add: isdigit_def)
    with assms(2) show False by simp
  qed
  then show ?thesis
    unfolding parse_simple_unit_with_dims_def resolve_power_def Let_def
    using assms by (simp cong: sum.case_cong)
qed

subsection \<open>The dictionaries of the converter\<close>

lemma apply_writes_Nil: "apply_writes [] self = self"
  by (simp add: apply_writes_def)

lemma apply_writes_Cons:
  "apply_writes ((unit, f, d) # ws) self = apply_writes ws (set_unit unit f d self)"
  by (simp add: apply_writes_def)

lemma apply_writes_append:
  "apply_writes (ws @ vs) self = apply_writes vs (apply_writes ws self)"
  by (simp add: apply_writes_def)

lemma fold_set_unit_writes_of:
  "fold (\<lambda>(unit, data). set_unit unit (factor data) (dimensions data)) us self =
   apply_writes (writes_of us) self"
  by (induction us arbitrary: self) (auto simp: writes_of_def apply_writes_def)

lemma add_prefixed_writes:
  "add_prefixed base_unit pf self = apply_writes (prefixed_write base_unit pf) self"
  by (cases pf)
     (simp add: add_prefixed_def prefixed_write_def apply_writes_def Let_def
        split: option.splits)

lemma fold_add_prefixed_writes:
  "fold (add_prefixed base_unit) ps self =
   apply_writes (concat (map (prefixed_write base_unit) ps)) self"
  by (induction ps arbitrary: self)
     (simp_all add: apply_writes_Nil apply_writes_append add_prefixed_writes)

lemma fold_bases_writes:
  "fold (\<lambda>base_unit. fold (add_prefixed base_unit) PREFIXES) bs self =
   apply_writes
     (concat (map (\<lambda>base_unit. concat (map (prefixed_write base_unit) PREFIXES)) bs)) self"
  by (induction bs arbitrary: self)
     (simp_all add: apply_writes_Nil apply_writes_append fold_add_prefixed_writes)

lemma build_unit_dictionary_writes:
  "build_unit_dictionary self =
   apply_writes (writes_of BASE_UNITS @ writes_of DERIVED_UNITS @ generated_writes) self"
  by (simp add: build_unit_dictionary_def Let_def fold_set_unit_writes_of fold_bases_writes
        apply_writes_append generated_writes_def)

lemma unit_dict_apply_writes:
  "map_of (unit_dict (apply_writes ws self)) k =
     (case map_of (rev (map (\<lambda>(unit, f, d). (unit, f)) ws)) k of
        Some v \<Rightarrow> Some v
      | None \<Rightarrow> map_of (unit_dict self) k)"
proof (induction ws arbitrary: self)
  case Nil
  then show ?case by (simp add: apply_writes_Nil)
next
  case (Cons w ws)
  obtain unit f d where w: "w = (unit, f, d)" by (cases w)
  show ?case
    by (simp add: w apply_writes_Cons Cons.IH set_unit_def update_conv' map_add_def
          split: option.splits)
qed

lemma dimension_dict_apply_writes:
  "map_of (dimension_dict (apply_writes ws self)) k =
     (case map_of (rev (map (\<lambda>(unit, f, d). (unit, d)) ws)) k of
        Some v \<Rightarrow> Some v
      | None \<Rightarrow> map_of (dimension_dict self) k)"
proof (induction ws arbitrary: self)
  case Nil
  then show ?case by (simp add: apply_writes_Nil)
next
  case (Cons w ws)
  obtain unit f d where w: "w = (unit, f, d)" by (cases w)
  show ?case
    by (simp add: w apply_writes_Cons Cons.IH set_unit_def update_conv' map_add_def
          split: option.splits)
qed

lemma prefixed_write_data:
  assumes "base_data b = Some data" and "b \<noteq> ''kg''"
  shows "prefixed_write b (p, m) =
           (if b = ''gmol'' \<and> p = ''k'' then []
            else [(p @ b, fmul (factor data) m, dimensions data)])"
  using assms by (auto simp: prefixed_write_def base_data_def split: option.splits)

lemma base_data_si:
  "b \<in> set base_si_units \<Longrightarrow> b \<noteq> ''kg'' \<and> (\<exists>data. base_data b = Some data)"
  by (auto simp: base_si_units_def base_data_def BASE_UNITS_def DERIVED_UNITS_def)

lemma keys_prefixed_writes:
  assumes "base_data b = Some data" and "b \<noteq> ''kg''"
  shows "map fst (concat (map (prefixed_write b) ps)) =
         map (\<lambda>p. p @ b) (filter (\<lambda>p. \<not> (b = ''gmol'' \<and> p = ''k'')) (map fst ps))"
proof (induction ps)
  case Nil
  then show ?case by simp
next
  case (Cons pm ps)
  obtain p m where pm: "pm = (p, m)" by (cases pm)
  show ?case
    using Cons.IH prefixed_write_data [OF assms, of p m] by (simp add: pm)
qed

lemma keys_generated_aux:
  assumes "set bs \<subseteq> set base_si_units"
  shows "map fst (concat (map (\<lambda>b. concat (map (prefixed_write b) PREFIXES)) bs)) =
         concat (map (\<lambda>b. map (\<lambda>p. p @ b)
                         (filter (\<lambda>p. \<not> (b = ''gmol'' \<and> p = ''k'')) (map fst PREFIXES))) bs)"
  using assms
proof (induction bs)
  case Nil
  then show ?case by simp
next
  case (Cons b bs)
  then have "b \<in> set base_si_units" by simp
  then obtain data where "base_data b = Some data" and "b \<noteq> ''kg''"
    using base_data_si by blast
  then show ?case
    using Cons by (simp add: keys_prefixed_writes)
qed

lemma keys_generated: "map fst generated_writes = generated_keys"
  unfolding generated_writes_def generated_keys_def
  by (rule keys_generated_aux) simp

lemma distinct_generated_keys: "distinct generated_keys"
  by (simp add: generated_keys_def PREFIXES_def base_si_units_def)

lemma ChemEngUnitConverter_writes:
  "ChemEngUnitConverter =
     apply_writes (fixed_writes @ generated_writes) \<lparr>unit_dict = [], dimension_dict = []\<rparr>"
  by (simp add: ChemEngUnitConverter_def build_unit_dictionary_writes fixed_writes_def)

lemma unit_dict_lookup:
  "map_of (unit_dict ChemEngUnitConverter) k =
     (case map_of (rev (map (\<lambda>(unit, f, d). (unit, f)) generated_writes)) k of
        Some v \<Rightarrow> Some v
      | None \<Rightarrow> map_of (rev (map (\<lambda>(unit, f, d). (unit, f)) fixed_writes)) k)"
  by (simp add: ChemEngUnitConverter_writes unit_dict_apply_writes map_add_def
        split: option.splits)

lemma dimension_dict_lookup:
  "map_of (dimension_dict ChemEngUnitConverter) k =
     (case map_of (rev (map (\<lambda>(unit, f, d). (unit, d)) generated_writes)) k of
        Some v \<Rightarrow> Some v
      | None \<Rightarrow> map_of (rev (map (\<lambda>(unit, f, d). (unit, d)) fixed_writes)) k)"
  by (simp add: ChemEngUnitConverter_writes dimension_dict_apply_writes map_add_def
        split: option.splits)

lemma keys_unit_writes: "map fst (map (\<lambda>(unit, f, d). (unit, f)) ws) = map fst ws"
  by (induction ws) auto

lemma keys_dimension_writes: "map fst (map (\<lambda>(unit, f, d). (unit, d)) ws) = map fst ws"
  by (induction ws) auto

lemma generated_write_member:
  assumes "b \<in> set base_si_units" and "(p, m) \<in> set PREFIXES"
    and "\<not> (b = ''gmol'' \<and> p = ''k'')" and "base_data b = Some data"
  shows "(p @ b, fmul (factor data) m, dimensions data) \<in> set generated_writes"
proof -
  have "b \<noteq> ''kg''"
    using assms(1) base_data_si by blast
  then have "prefixed_write b (p, m) = [(p @ b, fmul (factor data) m, dimensions data)]"
    using assms(3,4) by (simp add: prefixed_write_data)
  then have "(p @ b, fmul (factor data) m, dimensions data) \<in> set (prefixed_write b (p, m))"
    by simp
  then show ?thesis
    unfolding generated_writes_def using assms(1,2) by auto
qed

lemma generated_unit_lookup:
  assumes "b \<in> set base_si_units" and "(p, m) \<in> set PREFIXES"
    and "\<not> (b = ''gmol'' \<and> p = ''k'')" and "base_data b = Some data"
  shows "map_of (unit_dict ChemEngUnitConverter) (p @ b) = Some (fmul (factor data) m)"
proof -
  let ?kf = "map (\<lambda>(unit, f, d). (unit, f)) generated_writes"
  have "map fst (rev ?kf) = rev generated_keys"
    by (simp only: rev_map [symmetric] keys_unit_writes keys_generated)
  then have d: "distinct (map fst (rev ?kf))"
    using distinct_generated_keys by simp
  let ?w = "(p @ b, fmul (factor data) m, dimensions data)"
  have "(\<lambda>(unit, f, d). (unit, f)) ?w \<in> (\<lambda>(unit, f, d). (unit, f)) ` set generated_writes"
    using generated_write_member [OF assms] by (rule imageI)
  then have "(p @ b, fmul (factor data) m) \<in> set (rev ?kf)"
    by simp
  with d have "map_of (rev ?kf) (p @ b) = Some (fmul (factor data) m)"
    by (rule map_of_is_SomeI)
  then show ?thesis
    by (simp add: unit_dict_lookup)
qed

lemma generated_dimension_lookup:
  assumes "b \<in> set base_si_units" and "(p, m) \<in> set PREFIXES"
    and "\<not> (b = ''gmol'' \<and> p = ''k'')" and "base_data b = Some data"
  shows "map_of (dimension_dict ChemEngUnitConverter) (p @ b) = Some (dimensions data)"
proof -
  let ?kd = "map (\<lambda>(unit, f, d). (unit, d)) generated_writes"
  have "map fst (rev ?kd) = rev generated_keys"
    by (simp only: rev_map [symmetric] keys_dimension_writes keys_generated)
  then have d: "distinct (map fst (rev ?kd))"
    using distinct_generated_keys by simp
  let ?w = "(p @ b, fmul (factor data) m, dimensions data)"
  have "(\<lambda>(unit, f, d). (unit, d)) ?w \<in> (\<lambda>(unit, f, d). (unit, d)) ` set generated_writes"
    using generated_write_member [OF assms] by (rule imageI)
  then have "(p @ b, dimensions data) \<in> set (rev ?kd)"
    by simp
  with d have "map_of (rev ?kd) (p @ b) = Some (dimensions data)"
    by (rule map_of_is_SomeI)
  then show ?thesis
    by (simp add: dimension_dict_lookup)
qed

lemma fixed_unit_lookup:
  assumes "k \<notin> set generated_keys"
  shows "map_of (unit_dict ChemEngUnitConverter) k =
         map_of (rev (map (\<lambda>(unit, f, d). (unit, f)) fixed_writes)) k"
proof -
  let ?kf = "map (\<lambda>(unit, f, d). (unit, f)) generated_writes"
  have "map fst (rev ?kf) = rev generated_keys"
    by (simp only: rev_map [symmetric] keys_unit_writes keys_generated)
  then have "set (map fst (rev ?kf)) = set generated_keys"
    by simp
  then have "fst ` set (rev ?kf) = set generated_keys"
    by (simp only: set_map)
  with assms have "k \<notin> fst ` set (rev ?kf)"
    by simp
  then have "map_of (rev ?kf) k = None"
    by (rule map_of_eq_None_iff [THEN iffD2])
  then show ?thesis
    by (simp add: unit_dict_lookup)
qed

lemma fixed_dimension_lookup:
  assumes "k \<notin> set generated_keys"
  shows "map_of (dimension_dict ChemEngUnitConverter) k =
         map_of (rev (map (\<lambda>(unit, f, d). (unit, d)) fixed_writes)) k"
proof -
  let ?kd = "map (\<lambda>(unit, f, d). (unit, d)) generated_writes"
  have "map fst (rev ?kd) = rev generated_keys"
    by (simp only: rev_map [symmetric] keys_dimension_writes keys_generated)
  then have "set (map fst (rev ?kd)) = set generated_keys"
    by simp
  then have "fst ` set (rev ?kd) = set generated_keys"
    by (simp only: set_map)
  with assms have "k \<notin> fst ` set (rev ?kd)"
    by simp
  then have "map_of (rev ?kd) k = None"
    by (rule map_of_eq_None_iff [THEN iffD2])
  then show ?thesis
    by (simp add: dimension_dict_lookup)
qed

subsection \<open>Units of the examples\<close>

lemma not_generated_keys:
  "list_all (\<lambda>k. k \<notin> set generated_keys)
     [''m'', ''g'', ''s'', ''A'', ''mol'', ''gmol'', ''cd'', ''Pa'', ''J'', ''W'', ''N'', ''L'',
      ''K'', ''xyz'', ''(m'', ''degC'', ''degF'', ''degR'', ''egC'', ''egF'', ''egR'', ''kgmol'']"
  by (simp add: generated_keys_def PREFIXES_def base_si_units_def)

lemmas fixed_defs = fixed_writes_def writes_of_def BASE_UNITS_def DERIVED_UNITS_def

lemma unit_dict_fixed:
  "map_of (unit_dict ChemEngUnitConverter) ''m'' = Some (lit 1)"
  "map_of (unit_dict ChemEngUnitConverter) ''s'' = Some (lit 1)"
  "map_of (unit_dict ChemEngUnitConverter) ''gmol'' = Some (lit 1)"
  "map_of (unit_dict ChemEngUnitConverter) ''J'' = Some (lit 1)"
  "map_of (unit_dict ChemEngUnitConverter) ''W'' = Some (lit 1)"
  "map_of (unit_dict ChemEngUnitConverter) ''K'' = Some (lit 1)"
  "map_of (unit_dict ChemEngUnitConverter) ''xyz'' = None"
  "map_of (unit_dict ChemEngUnitConverter) ''(m'' = None"
  "map_of (unit_dict ChemEngUnitConverter) ''degC'' = None"
  "map_of (unit_dict ChemEngUnitConverter) ''degF'' = None"
  "map_of (unit_dict ChemEngUnitConverter) ''degR'' = None"
  "map_of (unit_dict ChemEngUnitConverter) ''egC'' = None"
  "map_of (unit_dict ChemEngUnitConverter) ''egF'' = None"
  "map_of (unit_dict ChemEngUnitConverter) ''egR'' = None"
  "map_of (unit_dict ChemEngUnitConverter) ''kgmol'' = None"
  using not_generated_keys by (simp_all add: fixed_unit_lookup fixed_defs)

lemma dimension_dict_fixed:
  "map_of (dimension_dict ChemEngUnitConverter) ''m'' = Some [(DimL, 1)]"
  "map_of (dimension_dict ChemEngUnitConverter) ''s'' = Some [(DimT, 1)]"
  "map_of (dimension_dict ChemEngUnitConverter) ''gmol'' = Some [(DimN, 1)]"
  "map_of (dimension_dict ChemEngUnitConverter) ''J'' = Some [(DimM, 1), (DimL, 2), (DimT, - 2)]"
  "map_of (dimension_dict ChemEngUnitConverter) ''W'' = Some [(DimM, 1), (DimL, 2), (DimT, - 3)]"
  "map_of (dimension_dict ChemEngUnitConverter) ''K'' = Some [(DimTheta, 1)]"
  "map_of (dimension_dict ChemEngUnitConverter) ''kgmol'' = None"
  using not_generated_keys by (simp_all add: fixed_dimension_lookup fixed_defs)

lemma get_unit_factor_known:
  "get_unit_factor ChemEngUnitConverter ''m'' = Inr (lit 1)"
  "get_unit_factor ChemEngUnitConverter ''s'' = Inr (lit 1)"
  "get_unit_factor ChemEngUnitConverter ''gmol'' = Inr (lit 1)"
  "get_unit_factor ChemEngUnitConverter ''J'' = Inr (lit 1)"
  "get_unit_factor ChemEngUnitConverter ''W'' = Inr (lit 1)"
  "get_unit_factor ChemEngUnitConverter ''K'' = Inr (lit 1)"
  by (simp_all add: get_unit_factor_def unit_dict_fixed)

lemma get_unit_dimensions_known:
  "get_unit_dimensions ChemEngUnitConverter ''m'' = Inr [(DimL, 1)]"
  "get_unit_dimensions ChemEngUnitConverter ''s'' = Inr [(DimT, 1)]"
  "get_unit_dimensions ChemEngUnitConverter ''gmol'' = Inr [(DimN, 1)]"
  "get_unit_dimensions ChemEngUnitConverter ''J'' = Inr [(DimM, 1), (DimL, 2), (DimT, - 2)]"
  "get_unit_dimensions ChemEngUnitConverter ''W'' = Inr [(DimM, 1), (DimL, 2), (DimT, - 3)]"
  "get_unit_dimensions ChemEngUnitConverter ''K'' = Inr [(DimTheta, 1)]"
  by (simp_all add: get_unit_dimensions_def dimension_dict_fixed)

lemma get_unit_factor_unknown:
  "get_unit_factor ChemEngUnitConverter ''xyz'' = Inl (UnknownUnit ''xyz'')"
  "get_unit_factor ChemEngUnitConverter ''(m'' = Inl (UnknownUnit ''(m'')"
  "get_unit_factor ChemEngUnitConverter ''degC'' = Inl (UnknownUnit ''degC'')"
  "get_unit_factor ChemEngUnitConverter ''degF'' = Inl (UnknownUnit ''degF'')"
  "get_unit_factor ChemEngUnitConverter ''degR'' = Inl (UnknownUnit ''degR'')"
  by (simp_all add: get_unit_factor_def unit_dict_fixed PREFIXES_def startswith_def)

lemma get_unit_kgmol:
  "get_unit_factor ChemEngUnitConverter ''kgmol'' = Inr (fmul (lit 1) (lit 1000))"
  "get_unit_dimensions ChemEngUnitConverter ''kgmol'' = Inr [(DimN, 1)]"
  by (simp_all add: get_unit_factor_def get_unit_dimensions_def unit_dict_fixed
        dimension_dict_fixed PREFIXES_def startswith_def)

lemma base_data_m: "base_data ''m'' = Some \<lparr>factor = lit 1, dimensions = [(DimL, 1)]\<rparr>"
  by (simp add: base_data_def BASE_UNITS_def)

lemma base_data_g: "base_data ''g'' = Some \<lparr>factor = lit (1 / 1000), dimensions = [(DimM, 1)]\<rparr>"
  by (simp add: base_data_def BASE_UNITS_def)

lemma unit_dict_generated:
  "map_of (unit_dict ChemEngUnitConverter) ''ym'' = Some (fmul (lit 1) (lit (1 / 10 ^ 24)))"
  "map_of (unit_dict ChemEngUnitConverter) ''km'' = Some (fmul (lit 1) (lit (10 ^ 3)))"
  "map_of (unit_dict ChemEngUnitConverter) ''kg'' = Some (fmul (lit (1 / 1000)) (lit (10 ^ 3)))"
  using generated_unit_lookup [of "''m''" "''y''" "lit (1 / 10 ^ 24)", OF _ _ _ base_data_m]
    generated_unit_lookup [of "''m''" "''k''" "lit (10 ^ 3)", OF _ _ _ base_data_m]
    generated_unit_lookup [of "''g''" "''k''" "lit (10 ^ 3)", OF _ _ _ base_data_g]
  by (simp_all add: base_si_units_def PREFIXES_def)

lemma dimension_dict_generated:
  "map_of (dimension_dict ChemEngUnitConverter) ''ym'' = Some [(DimL, 1)]"
  "map_of (dimension_dict ChemEngUnitConverter) ''km'' = Some [(DimL, 1)]"
  "map_of (dimension_dict ChemEngUnitConverter) ''kg'' = Some [(DimM, 1)]"
  using generated_dimension_lookup [of "''m''" "''y''" "lit (1 / 10 ^ 24)", OF _ _ _ base_data_m]
    generated_dimension_lookup [of "''m''" "''k''" "lit (10 ^ 3)", OF _ _ _ base_data_m]
    generated_dimension_lookup [of "''g''" "''k''" "lit (10 ^ 3)", OF _ _ _ base_data_g]
  by (simp_all add: base_si_units_def PREFIXES_def)

lemma get_unit_generated:
  "get_unit_factor ChemEngUnitConverter ''ym'' = Inr (fmul (lit 1) (lit (1 / 10 ^ 24)))"
  "get_unit_factor ChemEngUnitConverter ''km'' = Inr (fmul (lit 1) (lit (10 ^ 3)))"
  "get_unit_factor ChemEngUnitConverter ''kg'' = Inr (fmul (lit (1 / 1000)) (lit (10 ^ 3)))"
  "get_unit_dimensions ChemEngUnitConverter ''ym'' = Inr [(DimL, 1)]"
  "get_unit_dimensions ChemEngUnitConverter ''km'' = Inr [(DimL, 1)]"
  "get_unit_dimensions ChemEngUnitConverter ''kg'' = Inr [(DimM, 1)]"
  by (simp_all add: get_unit_factor_def get_unit_dimensions_def unit_dict_generated
        dimension_dict_generated)

lemmas eval_token =
  parse_simple_unit_with_dims_def TEMPERATURE_UNITS_def isdigit_def ascii_digit_def py_int_def
  int_max_str_digits_def scan_digits.simps Let_def get_unit_factor_known
  get_unit_dimensions_known get_unit_factor_unknown get_unit_kgmol get_unit_generated lit_def
  round64_values fpow_unit fpow_Suc_0

lemma parse_simple_values:
  "parse_simple_unit_with_dims cpow ChemEngUnitConverter ''m'' = Inr (Fin 1, [(DimL, 1)])"
  "parse_simple_unit_with_dims cpow ChemEngUnitConverter ''s'' = Inr (Fin 1, [(DimT, 1)])"
  "parse_simple_unit_with_dims cpow ChemEngUnitConverter ''kg'' = Inr (Fin 1, [(DimM, 1)])"
  "parse_simple_unit_with_dims cpow ChemEngUnitConverter ''J'' =
     Inr (Fin 1, [(DimM, 1), (DimL, 2), (DimT, - 2)])"
  "parse_simple_unit_with_dims cpow ChemEngUnitConverter ''W'' =
     Inr (Fin 1, [(DimM, 1), (DimL, 2), (DimT, - 3)])"
  "parse_simple_unit_with_dims cpow ChemEngUnitConverter ''K'' = Inr (Fin 1, [(DimTheta, 1)])"
  "parse_simple_unit_with_dims cpow ChemEngUnitConverter ''degC'' =
     Inr (Fin 1, [(DimTheta, 1)])"
  "parse_simple_unit_with_dims cpow ChemEngUnitConverter ''degF'' =
     Inr (Fin (2501999792983609 / 4503599627370496), [(DimTheta, 1)])"
  "parse_simple_unit_with_dims cpow ChemEngUnitConverter ''degR'' =
     Inr (Fin (2501999792983609 / 4503599627370496), [(DimTheta, 1)])"
  "parse_simple_unit_with_dims cpow ChemEngUnitConverter ''m2'' = Inr (Fin 1, [(DimL, 2)])"
  "parse_simple_unit_with_dims cpow ChemEngUnitConverter ''K2'' = Inr (Fin 1, [(DimTheta, 2)])"
  "parse_simple_unit_with_dims cpow ChemEngUnitConverter ''m14'' = Inr (Fin 1, [(DimL, 14)])"
  "parse_simple_unit_with_dims cpow ChemEngUnitConverter ''gmol'' = Inr (Fin 1, [(DimN, 1)])"
  "parse_simple_unit_with_dims cpow ChemEngUnitConverter ''xyz'' = Inl (UnknownUnit ''xyz'')"
  "parse_simple_unit_with_dims cpow ChemEngUnitConverter ''(m2'' = Inl (UnknownUnit ''(m'')"
  "parse_simple_unit_with_dims cpow ChemEngUnitConverter ''degF2'' =
     Inl (UnknownUnit ''degF'')"
  by (simp_all add: eval_token)

lemma parse_simple_prefixed:
  assumes "pow_identity cpow"
  shows "parse_simple_unit_with_dims cpow ChemEngUnitConverter ''km'' =
           Inr (Fin 1000, [(DimL, 1)])"
    and "parse_simple_unit_with_dims cpow ChemEngUnitConverter ''kgmol'' =
           Inr (Fin 1000, [(DimN, 1)])"
  using assms by (simp_all add: eval_token)

lemma parse_simple_ym14:
  "parse_simple_unit_with_dims pow_rounded ChemEngUnitConverter ''ym14'' =
     Inr (Fin 0, [(DimL, 14)])"
  by (simp add: eval_token fpow_yocto_14)

subsection \<open>Splitting an expression\<close>














subsection \<open>Expressions of the examples\<close>

lemma parse_simple_trivial:
  "parse_simple_unit_with_dims cpow self [] = Inr (lit 1, [])"
  "parse_simple_unit_with_dims cpow self ''1'' = Inr (lit 1, [])"
  by (simp_all add: parse_simple_unit_with_dims_def)

lemmas eval_parse = parse_simple_trivial
  parse_unit_expression_with_dims_def split_unit_expression_def Let_def startswith_def
  endswith_def add_dims_def sub_dims_def dims_get_def parse_simple_values
  lit_def round64_values round64_more fdiv_def

lemma parse_values:
  "parse_unit_expression_with_dims cpow ChemEngUnitConverter ''m14'' =
     Inr (Fin 1, [(DimL, 14)])"
  "parse_unit_expression_with_dims cpow ChemEngUnitConverter ''kg/m/s'' =
     Inr (Fin 1, [(DimM, 1), (DimL, - 1), (DimT, - 1)])"
  "parse_unit_expression_with_dims cpow ChemEngUnitConverter ''(m2.K)'' =
     Inl (UnknownUnit ''(m'')"
  "parse_unit_expression_with_dims cpow ChemEngUnitConverter ''m2.K'' =
     Inr (Fin 1, [(DimL, 2), (DimTheta, 1)])"
  "parse_unit_expression_with_dims cpow ChemEngUnitConverter ''J/degC'' =
     Inr (Fin 1, [(DimM, 1), (DimL, 2), (DimT, - 2), (DimTheta, - 1)])"
  "parse_unit_expression_with_dims cpow ChemEngUnitConverter ''J/degF'' =
     Inr (Fin (2026619832316723 / 1125899906842624),
          [(DimM, 1), (DimL, 2), (DimT, - 2), (DimTheta, - 1)])"
  "parse_unit_expression_with_dims cpow ChemEngUnitConverter ''J/K'' =
     Inr (Fin 1, [(DimM, 1), (DimL, 2), (DimT, - 2), (DimTheta, - 1)])"
  "parse_unit_expression_with_dims cpow ChemEngUnitConverter ''W/(m2.K)'' =
     Inr (Fin 1, [(DimM, 1), (DimL, 0), (DimT, - 3), (DimTheta, - 1)])"
  "parse_unit_expression_with_dims cpow ChemEngUnitConverter ''W/m2.K'' =
     Inr (Fin 1, [(DimM, 1), (DimL, 0), (DimT, - 3), (DimTheta, - 1)])"
  "parse_unit_expression_with_dims cpow ChemEngUnitConverter ''W/(m2.degF)'' =
     Inr (Fin (2026619832316723 / 1125899906842624),
          [(DimM, 1), (DimL, 0), (DimT, - 3), (DimTheta, - 1)])"
  "parse_unit_expression_with_dims cpow ChemEngUnitConverter ''J/J'' =
     Inr (Fin 1, [(DimM, 0), (DimL, 0), (DimT, 0)])"
  "parse_unit_expression_with_dims cpow ChemEngUnitConverter ''1'' = Inr (Fin 1, [])"
  "parse_unit_expression_with_dims cpow ChemEngUnitConverter ''J'' =
     Inr (Fin 1, [(DimM, 1), (DimL, 2), (DimT, - 2)])"
  "parse_unit_expression_with_dims cpow ChemEngUnitConverter ''W'' =
     Inr (Fin 1, [(DimM, 1), (DimL, 2), (DimT, - 3)])"
  "parse_unit_expression_with_dims cpow ChemEngUnitConverter ''xyz'' =
     Inl (UnknownUnit ''xyz'')"
  "parse_unit_expression_with_dims cpow ChemEngUnitConverter ''m'' = Inr (Fin 1, [(DimL, 1)])"
  "parse_unit_expression_with_dims cpow ChemEngUnitConverter ''gmol'' =
     Inr (Fin 1, [(DimN, 1)])"
  by (simp_all add: eval_parse)

lemma parse_prefixed:
  assumes "pow_identity cpow"
  shows "parse_unit_expression_with_dims cpow ChemEngUnitConverter ''km'' =
           Inr (Fin 1000, [(DimL, 1)])"
    and "parse_unit_expression_with_dims cpow ChemEngUnitConverter ''kgmol'' =
           Inr (Fin 1000, [(DimN, 1)])"
  by (simp_all add: parse_unit_expression_with_dims_def parse_simple_prefixed [OF assms])

lemma parse_ym14:
  "parse_unit_expression_with_dims pow_rounded ChemEngUnitConverter ''ym14'' =
     Inr (Fin 0, [(DimL, 14)])"
  by (simp add: parse_unit_expression_with_dims_def parse_simple_ym14)

lemmas eval_convert =
  convert_def TEMPERATURE_UNITS_def check_dimensional_compatibility_def dims_get_def
  parse_values fdiv_def round64_values round64_more

lemma convert_values:
  "convert cpow ChemEngUnitConverter (Fin 0) ''J/degC'' ''J/K'' = Inr (Fin 0)"
  "convert cpow ChemEngUnitConverter (Fin 100) ''J/degF'' ''J/K'' =
     Inr (Fin (6333186975989759 / 35184372088832))"
  "convert cpow ChemEngUnitConverter (Fin 1) ''W/(m2.degF)'' ''W/(m2.K)'' =
     Inr (Fin (2026619832316723 / 1125899906842624))"
  "convert cpow ChemEngUnitConverter (Fin 1) ''xyz'' ''m'' = Inl (UnknownUnit ''xyz'')"
  "convert cpow ChemEngUnitConverter (Fin 1) ''m'' ''xyz'' = Inl (UnknownUnit ''xyz'')"
  "convert cpow ChemEngUnitConverter (Fin 1) ''J/J'' ''1'' = Inr (Fin 1)"
  "convert cpow ChemEngUnitConverter v ''J'' ''W'' =
     Inl (IncompatibleDimensions ''J'' [(DimM, 1), (DimL, 2), (DimT, - 2)]
            ''W'' [(DimM, 1), (DimL, 2), (DimT, - 3)])"
  by (simp_all add: eval_convert)

lemma convert_prefixed:
  assumes "pow_identity cpow"
  shows "convert cpow ChemEngUnitConverter (Fin 1) ''km'' ''m'' = Inr (Fin 1000)"
    and "convert cpow ChemEngUnitConverter (Fin 1) ''kgmol'' ''gmol'' = Inr (Fin 1000)"
  by (simp_all add: eval_convert parse_prefixed [OF assms])

lemma convert_m14_ym14:
  "convert pow_rounded ChemEngUnitConverter (Fin 1) ''m14'' ''ym14'' = Inl ZeroDivisionError"
  by (simp add: eval_convert parse_ym14)

subsection \<open>Errors of a power, long suffixes, several slashes\<close>

lemma fpow_errors:
  assumes "fpow cpow x n = Inl e"
  shows "e = OverflowError \<or> e = PowValueError"
  using assms
  by (auto simp: fpow_def Let_def split: pyfloat.splits if_splits prod.splits c_errno.splits)

lemma resolve_power_known:
  assumes "get_unit_factor self u = Inr f" and "get_unit_dimensions self u = Inr d"
    and "resolve_power cpow self u n = Inl e"
  shows "e = OverflowError \<or> e = PowValueError"
proof -
  from assms have "fpow cpow f n = Inl e"
    by (simp add: resolve_power_def split: sum.splits)
  then show ?thesis
    by (rule fpow_errors)
qed

lemma parse_simple_too_many_digits:
  assumes "list_all ascii_digit ds" and "int_max_str_digits < length ds"
    and "u = [] \<or> \<not> isdigit (last u)"
  shows "parse_simple_unit_with_dims cpow self (u @ ds) = Inl (ExceedsDigitLimit (length ds))"
proof -
  have ne: "ds \<noteq> []"
    using assms(2) by auto
  have digs: "list_all isdigit ds"
    using assms(1) by (simp add: list_all_iff ascii_digit_isdigit)
  have last: "isdigit (last (u @ ds))"
    using ne digs by (simp add: list_all_iff)
  then have notemp: "u @ ds \<notin> TEMPERATURE_UNITS"
    using temperature_last_not_digit by blast
  have "length (u @ ds) \<noteq> length ''1''"
    using assms(2) by (simp add: int_max_str_digits_def)
  then have n1: "u @ ds \<noteq> ''1''"
    by (metis (full_types))
  have i: "scan_digits (u @ ds) (int (length (u @ ds)) - 1) + 1 = int (length u)"
    using scan_digits_token [OF digs assms(3)] .
  have tw: "takeWhile ascii_digit ds = ds"
    using assms(1) by (simp add: list_all_iff)
  have int: "py_int ds = Inl (ExceedsDigitLimit (length ds))"
    using assms(2) by (simp add: py_int_def tw Let_def)
  show ?thesis
    unfolding parse_simple_unit_with_dims_def Let_def
    using ne n1 last notemp int
    by (simp add: i del: length_append cong: sum.case_cong)
qed


subsection \<open>Prefixed units\<close>

lemma base_si_table:
  "list_all (\<lambda>b. b \<notin> set generated_keys \<and>
       (case base_data b of
          None \<Rightarrow> False
        | Some data \<Rightarrow>
            (factor data = Fin 1 \<or>
             factor data = Fin (1152921504606847 / 1152921504606846976)) \<and>
            map_of (rev (map (\<lambda>(unit, f, d). (unit, f)) fixed_writes)) b =
              Some (factor data) \<and>
            map_of (rev (map (\<lambda>(unit, f, d). (unit, d)) fixed_writes)) b =
              Some (dimensions data)))
     base_si_units"
  using not_generated_keys
  by (simp add: base_si_units_def base_data_def fixed_defs lit_def round64_values)

lemma base_si_lookup:
  assumes "b \<in> set base_si_units"
  obtains data where "base_data b = Some data"
    and "factor data = Fin 1 \<or> factor data = Fin (1152921504606847 / 1152921504606846976)"
    and "map_of (unit_dict ChemEngUnitConverter) b = Some (factor data)"
    and "map_of (dimension_dict ChemEngUnitConverter) b = Some (dimensions data)"
proof -
  from base_si_table assms
  have g: "b \<notin> set generated_keys"
    and c: "case base_data b of
          None \<Rightarrow> False
        | Some data \<Rightarrow>
            (factor data = Fin 1 \<or>
             factor data = Fin (1152921504606847 / 1152921504606846976)) \<and>
            map_of (rev (map (\<lambda>(unit, f, d). (unit, f)) fixed_writes)) b =
              Some (factor data) \<and>
            map_of (rev (map (\<lambda>(unit, f, d). (unit, d)) fixed_writes)) b =
              Some (dimensions data)"
    by (simp_all add: list_all_iff)
  from c obtain data where d: "base_data b = Some data"
    by (cases "base_data b") simp_all
  with c have "factor data = Fin 1 \<or>
             factor data = Fin (1152921504606847 / 1152921504606846976)"
    and "map_of (rev (map (\<lambda>(unit, f, d). (unit, f)) fixed_writes)) b = Some (factor data)"
    and "map_of (rev (map (\<lambda>(unit, f, d). (unit, d)) fixed_writes)) b =
              Some (dimensions data)"
    by simp_all
  with d g show thesis
    by (intro that [of data]) (simp_all add: fixed_unit_lookup fixed_dimension_lookup)
qed

lemma prefixed_shape:
  "list_all (\<lambda>b. list_all (\<lambda>(p, m).
       p @ b \<noteq> [] \<and> \<not> isdigit (last (p @ b)) \<and> p @ b \<notin> TEMPERATURE_UNITS \<and>
       p @ b \<noteq> ''dimensionless'' \<and> CHR ''/'' \<notin> set (p @ b) \<and> CHR ''.'' \<notin> set (p @ b))
     PREFIXES) base_si_units"
  by (simp add: base_si_units_def PREFIXES_def TEMPERATURE_UNITS_def isdigit_def)

lemma base_shape:
  "list_all (\<lambda>b.
       b \<noteq> [] \<and> \<not> isdigit (last b) \<and> b \<notin> TEMPERATURE_UNITS \<and>
       b \<noteq> ''dimensionless'' \<and> CHR ''/'' \<notin> set b \<and> CHR ''.'' \<notin> set b)
     base_si_units"
  by (simp add: base_si_units_def TEMPERATURE_UNITS_def isdigit_def)

lemma prefix_floats:
  "list_all (\<lambda>(p, m). list_all (\<lambda>B.
       case fmul B m of
         Fin x \<Rightarrow> 0 < x \<and> round64 x = Fin x \<and> fmul (Fin 1) (fquot (Fin x) B) = m
       | _ \<Rightarrow> False)
     [Fin 1, Fin (1152921504606847 / 1152921504606846976)]) PREFIXES"
  by (simp add: PREFIXES_def lit_def round64_values)

lemma prefix_kilo: "(''k'', m) \<in> set PREFIXES \<Longrightarrow> m = lit (10 ^ 3)"
  by (auto simp: PREFIXES_def)

lemma power_one_dims: "map (\<lambda>(d, ex). (d, ex * int (Suc 0))) ds = ds"
  by (induction ds) auto

lemma simple_expression:
  assumes "u \<noteq> []" and "\<not> isdigit (last u)" and "u \<notin> TEMPERATURE_UNITS"
    and "u \<noteq> ''dimensionless''" and "CHR ''/'' \<notin> set u" and "CHR ''.'' \<notin> set u"
    and "get_unit_factor self u = Inr (Fin x)" and "get_unit_dimensions self u = Inr ds"
    and "pow_identity cpow" and "0 < x" and "round64 x = Fin x"
  shows "parse_unit_expression_with_dims cpow self u = Inr (Fin x, ds)"
proof -
  have "u \<noteq> ''1''"
  proof
    assume "u = ''1''"
    then have "isdigit (last u)" by (simp add: isdigit_def)
    with assms(2) show False by simp
  qed
  then have "parse_unit_expression_with_dims cpow self u =
             parse_simple_unit_with_dims cpow self u"
    using assms(1,4,5,6) by (simp add: parse_unit_expression_with_dims_def)
  also have "\<dots> = resolve_power cpow self u 1"
    using assms(1,2,3) by (rule parse_simple_no_power)
  also have "\<dots> = Inr (Fin x, ds)"
    using assms(7,8) fpow_Suc_0 [OF assms(9,10,11)]
    by (simp add: resolve_power_def power_one_dims)
  finally show ?thesis .
qed

lemma convert_prefixed_base:
  assumes "pow_identity cpow" and "b \<in> set base_si_units" and "(p, m) \<in> set PREFIXES"
  shows "convert cpow ChemEngUnitConverter (Fin 1) (p @ b) b = Inr m"
proof -
  from assms(2) obtain data where data: "base_data b = Some data"
    and B: "factor data = Fin 1 \<or> factor data = Fin (1152921504606847 / 1152921504606846976)"
    and ub: "map_of (unit_dict ChemEngUnitConverter) b = Some (factor data)"
    and db: "map_of (dimension_dict ChemEngUnitConverter) b = Some (dimensions data)"
    by (rule base_si_lookup)
  have "\<exists>y. factor data = Fin y \<and> 0 < y \<and> round64 y = Fin y"
    using B
  proof
    assume "factor data = Fin 1"
    then show ?thesis
      by (intro exI [of _ 1]) (simp add: round64_values)
  next
    assume "factor data = Fin (1152921504606847 / 1152921504606846976)"
    then show ?thesis
      by (intro exI [of _ "1152921504606847 / 1152921504606846976"])
         (simp add: round64_values)
  qed
  then obtain y where y: "factor data = Fin y" "0 < y" "round64 y = Fin y"
    by blast
  have Bmem: "factor data \<in> set [Fin 1, Fin (1152921504606847 / 1152921504606846976)]"
    using B by auto
  from prefix_floats assms(3) Bmem
  have c: "case fmul (factor data) m of
         Fin x \<Rightarrow> 0 < x \<and> round64 x = Fin x \<and>
                  fmul (Fin 1) (fquot (Fin x) (factor data)) = m
       | _ \<Rightarrow> False"
    unfolding list_all_iff by fast
  then obtain x where x: "fmul (factor data) m = Fin x" "0 < x" "round64 x = Fin x"
    and res: "fmul (Fin 1) (fquot (Fin x) (factor data)) = m"
    by (cases "fmul (factor data) m") simp_all
  have shape: "p @ b \<noteq> []" "\<not> isdigit (last (p @ b))" "p @ b \<notin> TEMPERATURE_UNITS"
    "p @ b \<noteq> ''dimensionless''" "CHR ''/'' \<notin> set (p @ b)" "CHR ''.'' \<notin> set (p @ b)"
    using prefixed_shape assms(2,3) unfolding list_all_iff by fast+
  have bshape: "b \<noteq> []" "\<not> isdigit (last b)" "b \<notin> TEMPERATURE_UNITS"
    "b \<noteq> ''dimensionless''" "CHR ''/'' \<notin> set b" "CHR ''.'' \<notin> set b"
    using base_shape assms(2) unfolding list_all_iff by fast+
  have lookup: "get_unit_factor ChemEngUnitConverter (p @ b) = Inr (Fin x) \<and>
                get_unit_dimensions ChemEngUnitConverter (p @ b) = Inr (dimensions data)"
  proof (cases "b = ''gmol'' \<and> p = ''k''")
    case True
    then have m: "m = lit (10 ^ 3)"
      using assms(3) prefix_kilo by simp
    have "base_data ''gmol'' = Some \<lparr>factor = lit 1, dimensions = [(DimN, 1)]\<rparr>"
      by (simp add: base_data_def BASE_UNITS_def)
    with True data have d: "data = \<lparr>factor = lit 1, dimensions = [(DimN, 1)]\<rparr>"
      by simp
    have "fmul (lit 1) (lit 1000) = Fin x"
      using x(1) by (simp add: d m)
    with True show ?thesis
      by (simp add: get_unit_kgmol d)
  next
    case False
    have "map_of (unit_dict ChemEngUnitConverter) (p @ b) = Some (fmul (factor data) m)"
      using assms(2,3) False data by (rule generated_unit_lookup)
    moreover
    have "map_of (dimension_dict ChemEngUnitConverter) (p @ b) = Some (dimensions data)"
      using assms(2,3) False data by (rule generated_dimension_lookup)
    ultimately show ?thesis
      by (simp add: get_unit_factor_def get_unit_dimensions_def x(1))
  qed
  have from_expr: "parse_unit_expression_with_dims cpow ChemEngUnitConverter (p @ b) =
                   Inr (Fin x, dimensions data)"
    using shape lookup [THEN conjunct1] lookup [THEN conjunct2] assms(1) x(2,3)
    by (rule simple_expression)
  have "get_unit_factor ChemEngUnitConverter b = Inr (Fin y)"
    and "get_unit_dimensions ChemEngUnitConverter b = Inr (dimensions data)"
    by (simp_all add: get_unit_factor_def get_unit_dimensions_def ub db y(1))
  with bshape
  have to_expr: "parse_unit_expression_with_dims cpow ChemEngUnitConverter b =
                 Inr (Fin y, dimensions data)"
    using assms(1) y(2,3) by (rule simple_expression)
  have nt: "\<not> (p @ b \<in> TEMPERATURE_UNITS \<and> b \<in> TEMPERATURE_UNITS)"
    using bshape(3) by simp
  have compat: "check_dimensional_compatibility (dimensions data) (dimensions data)"
    by (simp add: check_dimensional_compatibility_iff)
  have "convert cpow ChemEngUnitConverter (Fin 1) (p @ b) b =
        Inr (fmul (Fin 1) (fquot (Fin x) (Fin y)))"
    using y(2) by (simp add: convert_not_both [OF nt] from_expr to_expr compat fdiv_def)
  then show ?thesis
    using res y(1) by simp
qed

text \<open>
  Claim C1, as amended. For two unit expressions that are not both temperature symbols,
  that parse to (fromFactor, fromDims) and (toFactor, toDims), and whose dimension
  vectors are equal (an absent axis counting as exponent 0), \<^verbatim>\<open>convert(v, fromUnit, toUnit)\<close>
  returns \<open>v * (fromFactor / toFactor)\<close> when toFactor is not 0.0, and raises
  \<^verbatim>\<open>ZeroDivisionError\<close> when toFactor is 0.0. So \<^verbatim>\<open>convert(100, 'J/degF', 'J/K')\<close> is
  179.99999999999997, and \<^verbatim>\<open>convert(1, 'km', 'm')\<close> is 1000.0 when \<^verbatim>\<open>pow(x, 1.0)\<close> is \<open>x\<close>.
\<close>

theorem C1_convert_scales:
  assumes "\<not> (from_unit \<in> TEMPERATURE_UNITS \<and> to_unit \<in> TEMPERATURE_UNITS)"
    and "parse_unit_expression_with_dims cpow self from_unit = Inr (from_factor, from_dims)"
    and "parse_unit_expression_with_dims cpow self to_unit = Inr (to_factor, to_dims)"
    and "\<forall>d. dims_get from_dims d = dims_get to_dims d"
  shows "(to_factor \<noteq> Fin 0 \<longrightarrow>
            convert cpow self v from_unit to_unit =
              Inr (fmul v (fquot from_factor to_factor))) \<and>
         (to_factor = Fin 0 \<longrightarrow>
            convert cpow self v from_unit to_unit = Inl ZeroDivisionError) \<and>
         convert cpow ChemEngUnitConverter (Fin 100) ''J/degF'' ''J/K'' =
           Inr (Fin (6333186975989759 / 35184372088832)) \<and>
         (pow_identity cpow \<longrightarrow>
            convert cpow ChemEngUnitConverter (Fin 1) ''km'' ''m'' = Inr (Fin 1000))"
proof -
  have c: "check_dimensional_compatibility from_dims to_dims"
    using assms(4) by (simp add: check_dimensional_compatibility_iff)
  have 1: "to_factor \<noteq> Fin 0 \<longrightarrow>
            convert cpow self v from_unit to_unit =
              Inr (fmul v (fquot from_factor to_factor))"
    using assms(2,3) c by (simp add: convert_not_both [OF assms(1)] fdiv_def)
  have 2: "to_factor = Fin 0 \<longrightarrow>
            convert cpow self v from_unit to_unit = Inl ZeroDivisionError"
    using assms(2,3) c by (simp add: convert_not_both [OF assms(1)] fdiv_zero)
  have 3: "pow_identity cpow \<longrightarrow>
            convert cpow ChemEngUnitConverter (Fin 1) ''km'' ''m'' = Inr (Fin 1000)"
    by (simp add: convert_prefixed)
  from 1 2 3 show ?thesis
    by (simp only: convert_values simp_thms)
qed

theorem C1_convert_scales_witness:
  "\<not> (''J/degF'' \<in> TEMPERATURE_UNITS \<and> ''J/K'' \<in> TEMPERATURE_UNITS) \<and>
   parse_unit_expression_with_dims pow_rounded ChemEngUnitConverter ''J/degF'' =
     Inr (Fin (2026619832316723 / 1125899906842624),
          [(DimM, 1), (DimL, 2), (DimT, - 2), (DimTheta, - 1)]) \<and>
   parse_unit_expression_with_dims pow_rounded ChemEngUnitConverter ''J/K'' =
     Inr (Fin 1, [(DimM, 1), (DimL, 2), (DimT, - 2), (DimTheta, - 1)]) \<and>
   convert pow_rounded ChemEngUnitConverter (Fin 100) ''J/degF'' ''J/K'' =
     Inr (fmul (Fin 100) (fquot (Fin (2026619832316723 / 1125899906842624)) (Fin 1))) \<and>
   pow_identity pow_rounded \<and>
   convert pow_rounded ChemEngUnitConverter (Fin 1) ''km'' ''m'' = Inr (Fin 1000)"
proof -
  have a: "\<not> (''J/degF'' \<in> TEMPERATURE_UNITS \<and> ''J/K'' \<in> TEMPERATURE_UNITS)"
    by (simp add: TEMPERATURE_UNITS_def)
  have b: "parse_unit_expression_with_dims pow_rounded ChemEngUnitConverter ''J/degF'' =
     Inr (Fin (2026619832316723 / 1125899906842624),
          [(DimM, 1), (DimL, 2), (DimT, - 2), (DimTheta, - 1)])"
    and c: "parse_unit_expression_with_dims pow_rounded ChemEngUnitConverter ''J/K'' =
     Inr (Fin 1, [(DimM, 1), (DimL, 2), (DimT, - 2), (DimTheta, - 1)])"
    by (simp_all only: parse_values)
  have d: "\<forall>d. dims_get [(DimM, 1), (DimL, 2), (DimT, - 2), (DimTheta, - 1)] d =
               dims_get [(DimM, 1), (DimL, 2), (DimT, - 2), (DimTheta, - 1)] d"
    by simp
  show ?thesis
    using a b c pow_identity_pow_rounded C1_convert_scales [OF a b c d, of "Fin 100"]
    by simp
qed

theorem C1_counterexample:
  "''m14'' \<notin> TEMPERATURE_UNITS \<and>
   parse_unit_expression_with_dims pow_rounded ChemEngUnitConverter ''m14'' =
     Inr (Fin 1, [(DimL, 14)]) \<and>
   parse_unit_expression_with_dims pow_rounded ChemEngUnitConverter ''ym14'' =
     Inr (Fin 0, [(DimL, 14)]) \<and>
   convert pow_rounded ChemEngUnitConverter (Fin 1) ''m14'' ''ym14'' = Inl ZeroDivisionError"
  by (simp add: parse_values parse_ym14 convert_m14_ym14 TEMPERATURE_UNITS_def)

text \<open>
  Claim C2. For every pair of unit expressions that are not both temperature symbols
  and that both parse, \<^verbatim>\<open>convert\<close> raises the error of incompatible dimensions if and
  only if the two dimension vectors differ on some axis, an axis absent from a vector
  counting as exponent 0; the error carries both unit strings and both dimension
  vectors; and the vectors differ on some axis if and only if they differ on an axis
  present in one of them. So \<^verbatim>\<open>convert(v, 'J', 'W')\<close> raises this error with the vectors of
  J and W, while \<^verbatim>\<open>convert(1, 'J/J', '1')\<close> returns 1.0: the vector of \<^verbatim>\<open>J/J\<close> has three
  axes with exponent 0 and the vector of \<^verbatim>\<open>1\<close> has no axis.
\<close>

theorem C2_incompatible_dimensions:
  assumes "\<not> (from_unit \<in> TEMPERATURE_UNITS \<and> to_unit \<in> TEMPERATURE_UNITS)"
    and "parse_unit_expression_with_dims cpow self from_unit = Inr (from_factor, from_dims)"
    and "parse_unit_expression_with_dims cpow self to_unit = Inr (to_factor, to_dims)"
  shows "((\<exists>fu fd tu td. convert cpow self v from_unit to_unit =
              Inl (IncompatibleDimensions fu fd tu td))
            \<longleftrightarrow> (\<exists>d. dims_get from_dims d \<noteq> dims_get to_dims d)) \<and>
         ((\<exists>d. dims_get from_dims d \<noteq> dims_get to_dims d) \<longrightarrow>
            convert cpow self v from_unit to_unit =
              Inl (IncompatibleDimensions from_unit from_dims to_unit to_dims)) \<and>
         ((\<exists>d. dims_get from_dims d \<noteq> dims_get to_dims d) \<longleftrightarrow>
            (\<exists>d \<in> fst ` set from_dims \<union> fst ` set to_dims.
               dims_get from_dims d \<noteq> dims_get to_dims d)) \<and>
         convert cpow ChemEngUnitConverter v ''J'' ''W'' =
           Inl (IncompatibleDimensions ''J'' [(DimM, 1), (DimL, 2), (DimT, - 2)]
                  ''W'' [(DimM, 1), (DimL, 2), (DimT, - 3)]) \<and>
         parse_unit_expression_with_dims cpow ChemEngUnitConverter ''J/J'' =
           Inr (Fin 1, [(DimM, 0), (DimL, 0), (DimT, 0)]) \<and>
         parse_unit_expression_with_dims cpow ChemEngUnitConverter ''1'' = Inr (Fin 1, []) \<and>
         convert cpow ChemEngUnitConverter (Fin 1) ''J/J'' ''1'' = Inr (Fin 1)"
proof -
  let ?differ = "\<exists>d. dims_get from_dims d \<noteq> dims_get to_dims d"
  have c: "check_dimensional_compatibility from_dims to_dims \<longleftrightarrow> \<not> ?differ"
    by (simp add: check_dimensional_compatibility_iff)
  have raise: "?differ \<longrightarrow> convert cpow self v from_unit to_unit =
              Inl (IncompatibleDimensions from_unit from_dims to_unit to_dims)"
    using assms(2,3) c by (simp add: convert_not_both [OF assms(1)])
  have noraise: "\<not> ?differ \<Longrightarrow>
      convert cpow self v from_unit to_unit \<noteq> Inl (IncompatibleDimensions fu fd tu td)"
    for fu fd tu td
  proof -
    assume nd: "\<not> ?differ"
    show ?thesis
    proof (cases "to_factor = Fin 0")
      case True
      with assms(2,3) c nd show ?thesis
        by (simp add: convert_not_both [OF assms(1)] fdiv_zero)
    next
      case False
      with assms(2,3) c nd show ?thesis
        by (simp add: convert_not_both [OF assms(1)] fdiv_def)
    qed
  qed
  have keys: "?differ \<longleftrightarrow> (\<exists>d \<in> fst ` set from_dims \<union> fst ` set to_dims.
               dims_get from_dims d \<noteq> dims_get to_dims d)"
  proof
    assume ?differ
    then obtain d where d: "dims_get from_dims d \<noteq> dims_get to_dims d" by blast
    have "d \<in> fst ` set from_dims \<union> fst ` set to_dims"
    proof (rule ccontr)
      assume "d \<notin> fst ` set from_dims \<union> fst ` set to_dims"
      then have "dims_get from_dims d = 0" and "dims_get to_dims d = 0"
        by (simp_all add: dims_get_absent)
      with d show False by simp
    qed
    with d show "\<exists>d \<in> fst ` set from_dims \<union> fst ` set to_dims.
               dims_get from_dims d \<noteq> dims_get to_dims d" by blast
  qed blast
  have main: "(\<exists>fu fd tu td. convert cpow self v from_unit to_unit =
                  Inl (IncompatibleDimensions fu fd tu td)) \<longleftrightarrow> ?differ"
  proof
    assume ex: "\<exists>fu fd tu td. convert cpow self v from_unit to_unit =
                  Inl (IncompatibleDimensions fu fd tu td)"
    show ?differ
    proof (rule ccontr)
      assume "\<not> ?differ"
      from noraise [OF this] ex show False by blast
    qed
  next
    assume d: ?differ
    with raise have "convert cpow self v from_unit to_unit =
              Inl (IncompatibleDimensions from_unit from_dims to_unit to_dims)"
      by (rule mp)
    then show "\<exists>fu fd tu td. convert cpow self v from_unit to_unit =
                  Inl (IncompatibleDimensions fu fd tu td)" by blast
  qed
  show ?thesis
    by (intro conjI main raise keys) (simp_all only: parse_values convert_values)
qed

theorem C2_incompatible_dimensions_witness:
  "\<not> (''J'' \<in> TEMPERATURE_UNITS \<and> ''W'' \<in> TEMPERATURE_UNITS) \<and>
   parse_unit_expression_with_dims pow_rounded ChemEngUnitConverter ''J'' =
     Inr (Fin 1, [(DimM, 1), (DimL, 2), (DimT, - 2)]) \<and>
   parse_unit_expression_with_dims pow_rounded ChemEngUnitConverter ''W'' =
     Inr (Fin 1, [(DimM, 1), (DimL, 2), (DimT, - 3)]) \<and>
   dims_get [(DimM, 1), (DimL, 2), (DimT, - 2)] DimT \<noteq>
     dims_get [(DimM, 1), (DimL, 2), (DimT, - 3)] DimT \<and>
   (\<exists>fu fd tu td. convert pow_rounded ChemEngUnitConverter (Fin 1) ''J'' ''W'' =
      Inl (IncompatibleDimensions fu fd tu td))"
proof -
  have a: "\<not> (''J'' \<in> TEMPERATURE_UNITS \<and> ''W'' \<in> TEMPERATURE_UNITS)"
    by (simp add: TEMPERATURE_UNITS_def)
  have b: "parse_unit_expression_with_dims pow_rounded ChemEngUnitConverter ''J'' =
     Inr (Fin 1, [(DimM, 1), (DimL, 2), (DimT, - 2)])"
    and c: "parse_unit_expression_with_dims pow_rounded ChemEngUnitConverter ''W'' =
     Inr (Fin 1, [(DimM, 1), (DimL, 2), (DimT, - 3)])"
    by (simp_all only: parse_values)
  have d: "dims_get [(DimM, 1), (DimL, 2), (DimT, - 2)] DimT \<noteq>
     dims_get [(DimM, 1), (DimL, 2), (DimT, - 3)] DimT"
    by (simp add: dims_get_def)
  then have e: "\<exists>d. dims_get [(DimM, 1), (DimL, 2), (DimT, - 2)] d \<noteq>
     dims_get [(DimM, 1), (DimL, 2), (DimT, - 3)] d"
    by (rule exI)
  have "(\<exists>fu fd tu td. convert pow_rounded ChemEngUnitConverter (Fin 1) ''J'' ''W'' =
           Inl (IncompatibleDimensions fu fd tu td)) \<longleftrightarrow>
        (\<exists>d. dims_get [(DimM, 1), (DimL, 2), (DimT, - 2)] d \<noteq>
           dims_get [(DimM, 1), (DimL, 2), (DimT, - 3)] d)"
    using C2_incompatible_dimensions [OF a b c, of "Fin 1"] by (rule conjunct1)
  then have "\<exists>fu fd tu td. convert pow_rounded ChemEngUnitConverter (Fin 1) ''J'' ''W'' =
      Inl (IncompatibleDimensions fu fd tu td)"
    using e by (rule iffD2)
  with a b c d show ?thesis
    by (intro conjI)
qed

text \<open>
  Claim C3. When both units are among K, degC, degF and degR, \<^verbatim>\<open>convert(v, fromUnit, toUnit)\<close>
  returns \<open>fromKelvin(toKelvin(v, fromUnit), toUnit)\<close> for the affine formulas
  \<open>degC = K - 273.15\<close>, \<open>degF = (K - 273.15) * 9 / 5 + 32\<close>, \<open>degR = K * 9 / 5\<close>, whatever the
  converter object; it raises nothing. In particular \<^verbatim>\<open>convert(0, 'degC', 'K')\<close> is 273.15,
  \<^verbatim>\<open>convert(32, 'degF', 'degC')\<close> is 0.0 and \<^verbatim>\<open>convert(100, 'degC', 'degF')\<close> is 212.0.
\<close>

theorem C3_temperature:
  assumes "from_unit \<in> TEMPERATURE_UNITS" and "to_unit \<in> TEMPERATURE_UNITS"
  shows "convert cpow self v from_unit to_unit =
           Inr (fromKelvin (toKelvin v from_unit) to_unit) \<and>
         convert cpow self (Fin 0) ''degC'' ''K'' =
           Inr (Fin (2402652809016115 / 8796093022208)) \<and>
         lit (27315 / 100) = Fin (2402652809016115 / 8796093022208) \<and>
         convert cpow self (Fin 32) ''degF'' ''degC'' = Inr (Fin 0) \<and>
         convert cpow self (Fin 100) ''degC'' ''degF'' = Inr (Fin 212)"
proof -
  have f: "from_unit = ''K'' \<or> from_unit = ''degC'' \<or> from_unit = ''degF'' \<or> from_unit = ''degR''"
    using assms(1) by (simp add: TEMPERATURE_UNITS_def)
  have t: "to_unit = ''K'' \<or> to_unit = ''degC'' \<or> to_unit = ''degF'' \<or> to_unit = ''degR''"
    using assms(2) by (simp add: TEMPERATURE_UNITS_def)
  have d: "fdiv x (lit 9) = Inr (fquot x (lit 9))" "fdiv x (lit 5) = Inr (fquot x (lit 5))" for x
    by (simp_all add: fdiv_def lit_def round64_values)
  have "convert cpow self v from_unit to_unit = convert_temperature v from_unit to_unit"
    using assms by (simp add: convert_def)
  also have "\<dots> = Inr (fromKelvin (toKelvin v from_unit) to_unit)"
    using f t
    by (elim disjE) (simp_all add: convert_temperature_def toKelvin_def fromKelvin_def d)
  finally have 1: "convert cpow self v from_unit to_unit =
                     Inr (fromKelvin (toKelvin v from_unit) to_unit)" .
  have 2: "convert cpow self (Fin 0) ''degC'' ''K'' =
             Inr (Fin (2402652809016115 / 8796093022208))"
    by (simp add: convert_def TEMPERATURE_UNITS_def convert_temperature_def lit_def
          round64_values)
  have 3: "lit (27315 / 100) = Fin (2402652809016115 / 8796093022208)"
    by (simp add: lit_def round64_values)
  have 4: "convert cpow self (Fin 32) ''degF'' ''degC'' = Inr (Fin 0)"
    by (simp add: convert_def TEMPERATURE_UNITS_def convert_temperature_def lit_def
          round64_values fsub_def fdiv_def)
  have 5: "convert cpow self (Fin 100) ''degC'' ''degF'' = Inr (Fin 212)"
    by (simp add: convert_def TEMPERATURE_UNITS_def convert_temperature_def lit_def
          round64_values fsub_def fdiv_def)
  from 1 2 3 4 5 show ?thesis
    by (intro conjI)
qed

theorem C3_temperature_witness:
  "''degC'' \<in> TEMPERATURE_UNITS \<and> ''degR'' \<in> TEMPERATURE_UNITS \<and>
   convert pow_rounded ChemEngUnitConverter (Fin 0) ''degC'' ''degR'' =
     Inr (fquot (fmul (fadd (Fin 0) (lit (27315 / 100))) (lit 9)) (lit 5))"
proof -
  have c: "''degC'' \<in> TEMPERATURE_UNITS" and r: "''degR'' \<in> TEMPERATURE_UNITS"
    by (simp_all add: TEMPERATURE_UNITS_def)
  show ?thesis
    using c r C3_temperature [OF c r, of pow_rounded ChemEngUnitConverter "Fin 0"]
    by (simp add: toKelvin_def fromKelvin_def)
qed




text \<open>
  Claim C6. A temperature symbol met as a token of a compound expression contributes
  temperature exponent 1 and a multiplicative scale factor, 1.0 for K and degC and the
  float nearest to 5/9 for degF and degR, never an offset. Whatever the converter object
  and the tokens that follow in the group, the parser multiplies the factor of the
  group by the scale factor and adds 1 to the temperature exponent of the group, both
  inside a group of several tokens and for a group that is the symbol alone. So
  \<^verbatim>\<open>W/(m2.K)\<close> has factor 1.0 and \<^verbatim>\<open>W/(m2.degF)\<close> has factor \<open>1.0 / (5/9)\<close>, both with
  temperature exponent -1, \<^verbatim>\<open>convert(1, 'W/(m2.degF)', 'W/(m2.K)')\<close> is 1.7999999999999998,
  and \<^verbatim>\<open>convert(0, 'J/degC', 'J/K')\<close> is 0.0, not 273.15.
\<close>

theorem C6_temperature_tokens:
  assumes "t \<in> TEMPERATURE_UNITS"
  shows "parse_simple_unit_with_dims cpow self t = Inr (temperature_scale t, [(DimTheta, 1)]) \<and>
         parse_subparts cpow self (t # rest) (f, d) =
           parse_subparts cpow self rest
             (fmul f (temperature_scale t), add_dims [(DimTheta, 1)] d) \<and>
         parse_parts cpow self (t # rest) (f, d) =
           parse_parts cpow self rest
             (fmul f (temperature_scale t), add_dims [(DimTheta, 1)] d) \<and>
         dims_get (add_dims [(DimTheta, 1)] d) DimTheta = dims_get d DimTheta + 1 \<and>
         (\<forall>k. k \<noteq> DimTheta \<longrightarrow> dims_get (add_dims [(DimTheta, 1)] d) k = dims_get d k) \<and>
         temperature_scale ''K'' = Fin 1 \<and>
         temperature_scale ''degC'' = Fin 1 \<and>
         temperature_scale ''degF'' = Fin (2501999792983609 / 4503599627370496) \<and>
         temperature_scale ''degR'' = Fin (2501999792983609 / 4503599627370496) \<and>
         parse_unit_expression_with_dims cpow ChemEngUnitConverter ''W/(m2.K)'' =
           Inr (Fin 1, [(DimM, 1), (DimL, 0), (DimT, - 3), (DimTheta, - 1)]) \<and>
         parse_unit_expression_with_dims cpow ChemEngUnitConverter ''W/(m2.degF)'' =
           Inr (Fin (2026619832316723 / 1125899906842624),
                [(DimM, 1), (DimL, 0), (DimT, - 3), (DimTheta, - 1)]) \<and>
         parse_unit_expression_with_dims cpow ChemEngUnitConverter ''J/degF'' =
           Inr (Fin (2026619832316723 / 1125899906842624),
                [(DimM, 1), (DimL, 2), (DimT, - 2), (DimTheta, - 1)]) \<and>
         convert cpow ChemEngUnitConverter (Fin 1) ''W/(m2.degF)'' ''W/(m2.K)'' =
           Inr (Fin (2026619832316723 / 1125899906842624)) \<and>
         convert cpow ChemEngUnitConverter (Fin 0) ''J/degC'' ''J/K'' = Inr (Fin 0)"
proof -
  have t: "t = ''K'' \<or> t = ''degC'' \<or> t = ''degF'' \<or> t = ''degR''"
    using assms by (simp add: TEMPERATURE_UNITS_def)
  have simple: "parse_simple_unit_with_dims cpow self t =
                  Inr (temperature_scale t, [(DimTheta, 1)])"
    using t
    by (elim disjE)
       (simp_all add: parse_simple_unit_with_dims_def TEMPERATURE_UNITS_def
          temperature_scale_def)
  have nodot: "CHR ''.'' \<notin> set t"
    using t by auto
  have sub: "parse_subparts cpow self (t # rest) (f, d) =
               parse_subparts cpow self rest
                 (fmul f (temperature_scale t), add_dims [(DimTheta, 1)] d)"
    by (simp add: simple)
  have part: "parse_parts cpow self (t # rest) (f, d) =
                parse_parts cpow self rest
                  (fmul f (temperature_scale t), add_dims [(DimTheta, 1)] d)"
    using nodot by (simp add: simple)
  have d1: "dims_get (add_dims [(DimTheta, 1)] d) DimTheta = dims_get d DimTheta + 1"
    by (simp add: add_dims_def dims_get_def update_conv')
  have d2: "\<forall>k. k \<noteq> DimTheta \<longrightarrow> dims_get (add_dims [(DimTheta, 1)] d) k = dims_get d k"
    by (simp add: add_dims_def dims_get_def update_conv')
  have scales: "temperature_scale ''K'' = Fin 1" "temperature_scale ''degC'' = Fin 1"
    "temperature_scale ''degF'' = Fin (2501999792983609 / 4503599627370496)"
    "temperature_scale ''degR'' = Fin (2501999792983609 / 4503599627370496)"
    by (simp_all add: temperature_scale_def lit_def round64_values)
  show ?thesis
    by (intro conjI simple sub part d1 d2 scales)
       (simp_all only: parse_values convert_values)
qed

theorem C6_temperature_tokens_witness:
  "''degF'' \<in> TEMPERATURE_UNITS \<and>
   parse_subparts pow_rounded ChemEngUnitConverter [''degF''] (Fin 1, [(DimL, 2)]) =
     Inr (Fin (2501999792983609 / 4503599627370496), [(DimL, 2), (DimTheta, 1)])"
proof -
  have t: "''degF'' \<in> TEMPERATURE_UNITS"
    by (simp add: TEMPERATURE_UNITS_def)
  show ?thesis
    using t C6_temperature_tokens [OF t, of pow_rounded ChemEngUnitConverter "[]" "Fin 1"
        "[(DimL, 2)]"]
    by (simp add: add_dims_def dims_get_def round64_more)
qed




text \<open>
  Claim C8. For every prefixable base unit \<open>b\<close> among m, g, s, A, mol, gmol, cd, Pa, J, W,
  N, L and every prefix \<open>p\<close> with multiplier \<open>m\<close> among the 21 prefixes, and when
  \<^verbatim>\<open>pow(x, 1.0)\<close> is \<open>x\<close>, \<^verbatim>\<open>convert(1, p + b, b)\<close> returns exactly the float \<open>m\<close>; the prefixes
  are the 20 standard ones and u, and the base units are those that the constructor
  prefixes. So \<^verbatim>\<open>convert(1, 'km', 'm')\<close> is 1000.0 and \<^verbatim>\<open>convert(1, 'umol', 'mol')\<close> is 1e-06.
\<close>

theorem C8_prefix_consistency:
  assumes "pow_identity cpow"
  shows "(\<forall>b \<in> set base_si_units. \<forall>(p, m) \<in> set PREFIXES.
            convert cpow ChemEngUnitConverter (Fin 1) (p @ b) b = Inr m) \<and>
         base_si_units =
           [''m'', ''g'', ''s'', ''A'', ''mol'', ''gmol'', ''cd'', ''Pa'', ''J'', ''W'', ''N'', ''L''] \<and>
         map fst PREFIXES =
           [''Y'', ''Z'', ''E'', ''P'', ''T'', ''G'', ''M'', ''k'', ''h'', ''da'', ''d'', ''c'', ''m'',
            ''mu'', ''u'', ''n'', ''p'', ''f'', ''a'', ''z'', ''y''] \<and>
         convert cpow ChemEngUnitConverter (Fin 1) ''km'' ''m'' = Inr (Fin 1000) \<and>
         convert cpow ChemEngUnitConverter (Fin 1) ''umol'' ''mol'' =
           Inr (Fin (4722366482869645 / 4722366482869645213696)) \<and>
         map_of PREFIXES ''u'' = Some (Fin (4722366482869645 / 4722366482869645213696))"
proof -
  have 1: "\<forall>b \<in> set base_si_units. \<forall>(p, m) \<in> set PREFIXES.
            convert cpow ChemEngUnitConverter (Fin 1) (p @ b) b = Inr m"
    using convert_prefixed_base [OF assms] by auto
  have 2: "base_si_units =
           [''m'', ''g'', ''s'', ''A'', ''mol'', ''gmol'', ''cd'', ''Pa'', ''J'', ''W'', ''N'', ''L'']"
    by (simp add: base_si_units_def)
  have 3: "map fst PREFIXES =
           [''Y'', ''Z'', ''E'', ''P'', ''T'', ''G'', ''M'', ''k'', ''h'', ''da'', ''d'', ''c'', ''m'',
            ''mu'', ''u'', ''n'', ''p'', ''f'', ''a'', ''z'', ''y'']"
    by (simp add: PREFIXES_def)
  have 4: "convert cpow ChemEngUnitConverter (Fin 1) ''km'' ''m'' = Inr (Fin 1000)"
    using assms by (rule convert_prefixed)
  have 6: "map_of PREFIXES ''u'' = Some (Fin (4722366482869645 / 4722366482869645213696))"
    by (simp add: PREFIXES_def lit_def round64_values)
  then have "(''u'', Fin (4722366482869645 / 4722366482869645213696)) \<in> set PREFIXES"
    by (rule map_of_SomeD)
  moreover have "''mol'' \<in> set base_si_units"
    by (simp add: base_si_units_def)
  ultimately
  have "convert cpow ChemEngUnitConverter (Fin 1) (''u'' @ ''mol'') ''mol'' =
          Inr (Fin (4722366482869645 / 4722366482869645213696))"
    using convert_prefixed_base [OF assms] by blast
  then have 5: "convert cpow ChemEngUnitConverter (Fin 1) ''umol'' ''mol'' =
           Inr (Fin (4722366482869645 / 4722366482869645213696))"
    by simp
  from 1 2 3 4 5 6 show ?thesis
    by (intro conjI)
qed

theorem C8_prefix_consistency_witness:
  "pow_identity pow_rounded \<and>
   convert pow_rounded ChemEngUnitConverter (Fin 1) ''MW'' ''W'' = Inr (Fin 1000000)"
proof -
  have w: "''W'' \<in> set base_si_units"
    by (simp add: base_si_units_def)
  have m: "(''M'', Fin 1000000) \<in> set PREFIXES"
    by (simp add: PREFIXES_def lit_def round64_values)
  from C8_prefix_consistency [OF pow_identity_pow_rounded]
  have "\<forall>b \<in> set base_si_units. \<forall>(p, m) \<in> set PREFIXES.
            convert pow_rounded ChemEngUnitConverter (Fin 1) (p @ b) b = Inr m"
    by (rule conjunct1)
  with w m have "convert pow_rounded ChemEngUnitConverter (Fin 1) (''M'' @ ''W'') ''W'' =
                   Inr (Fin 1000000)"
    by fast
  then show ?thesis
    using pow_identity_pow_rounded by simp
qed

text \<open>
  Claim C9. The table generation skips the prefix k for gmol, and the dictionaries of
  the converter have no entry \<^verbatim>\<open>kgmol\<close>. Still the resolver accepts \<^verbatim>\<open>kgmol\<close>: the loop over
  the prefixes splits it as k + gmol, which gives the factor 1000.0 and the dimension
  vector of gmol, so the token never raises the error of an unknown unit, and
  \<^verbatim>\<open>convert(1, 'kgmol', 'gmol')\<close> returns 1000.0 when \<^verbatim>\<open>pow(x, 1.0)\<close> is \<open>x\<close>.
\<close>

theorem C9_kgmol:
  "add_prefixed ''gmol'' (''k'', f) self = self \<and>
   map_of (unit_dict ChemEngUnitConverter) ''kgmol'' = None \<and>
   map_of (dimension_dict ChemEngUnitConverter) ''kgmol'' = None \<and>
   map_of (unit_dict ChemEngUnitConverter) ''gmol'' = Some (Fin 1) \<and>
   get_unit_factor ChemEngUnitConverter ''kgmol'' = Inr (Fin 1000) \<and>
   get_unit_dimensions ChemEngUnitConverter ''kgmol'' = Inr [(DimN, 1)] \<and>
   (\<forall>u. parse_simple_unit_with_dims cpow ChemEngUnitConverter ''kgmol'' \<noteq>
          Inl (UnknownUnit u)) \<and>
   (pow_identity cpow \<longrightarrow>
      parse_simple_unit_with_dims cpow ChemEngUnitConverter ''kgmol'' =
        Inr (Fin 1000, [(DimN, 1)]) \<and>
      convert cpow ChemEngUnitConverter (Fin 1) ''kgmol'' ''gmol'' = Inr (Fin 1000))"
proof -
  have 1: "add_prefixed ''gmol'' (''k'', f) self = self"
    by (simp add: add_prefixed_def)
  have f: "get_unit_factor ChemEngUnitConverter ''kgmol'' = Inr (Fin 1000)"
    by (simp add: get_unit_kgmol lit_def round64_values)
  have d: "get_unit_dimensions ChemEngUnitConverter ''kgmol'' = Inr [(DimN, 1)]"
    by (simp add: get_unit_kgmol)
  have g: "map_of (unit_dict ChemEngUnitConverter) ''gmol'' = Some (Fin 1)"
    by (simp add: unit_dict_fixed lit_def round64_values)
  have p: "parse_simple_unit_with_dims cpow ChemEngUnitConverter ''kgmol'' =
           resolve_power cpow ChemEngUnitConverter ''kgmol'' 1"
    by (rule parse_simple_no_power) (simp_all add: isdigit_def TEMPERATURE_UNITS_def)
  have 7: "\<forall>u. parse_simple_unit_with_dims cpow ChemEngUnitConverter ''kgmol'' \<noteq>
          Inl (UnknownUnit u)"
  proof (intro allI notI)
    fix u
    assume "parse_simple_unit_with_dims cpow ChemEngUnitConverter ''kgmol'' =
          Inl (UnknownUnit u)"
    then have "resolve_power cpow ChemEngUnitConverter ''kgmol'' 1 = Inl (UnknownUnit u)"
      by (simp only: p)
    with f d have "UnknownUnit u = OverflowError \<or> UnknownUnit u = PowValueError"
      by (rule resolve_power_known)
    then show False by simp
  qed
  have 8: "pow_identity cpow \<longrightarrow>
      parse_simple_unit_with_dims cpow ChemEngUnitConverter ''kgmol'' =
        Inr (Fin 1000, [(DimN, 1)]) \<and>
      convert cpow ChemEngUnitConverter (Fin 1) ''kgmol'' ''gmol'' = Inr (Fin 1000)"
    by (simp add: parse_simple_prefixed convert_prefixed)
  show ?thesis
    by (intro conjI 1 f d g 7 8) (simp_all only: unit_dict_fixed dimension_dict_fixed)
qed

theorem C9_kgmol_witness:
  "pow_identity pow_rounded \<and>
   convert pow_rounded ChemEngUnitConverter (Fin 1) ''kgmol'' ''gmol'' = Inr (Fin 1000)"
  using C9_kgmol [of "Fin 1000" ChemEngUnitConverter pow_rounded] pow_identity_pow_rounded
  by simp

text \<open>
  Claim C10, as amended. For a token made of one of the symbols degC, degF, degR and a
  suffix of ASCII digits, the resolver raises the error of an unknown unit, carrying
  the symbol, when the suffix has at most 4300 digits; a longer suffix raises the
  \<^verbatim>\<open>ValueError\<close> of \<^verbatim>\<open>int\<close> for a string above its limit of digits, before any lookup. The
  bare symbol is accepted, through the temperature branch, although the unit dictionary
  has no entry for it, and the symbol does not resolve after stripping a prefix either;
  \<^verbatim>\<open>degF2\<close> raises the error with \<^verbatim>\<open>degF\<close>. By contrast \<^verbatim>\<open>K2\<close> resolves, to factor 1.0 and
  temperature exponent 2, since K has an entry in the unit dictionary.
\<close>

theorem C10_temperature_power:
  assumes "t \<in> {''degC'', ''degF'', ''degR''}" and "ds \<noteq> []" and "list_all ascii_digit ds"
  shows "(length ds \<le> 4300 \<longrightarrow>
            parse_simple_unit_with_dims cpow ChemEngUnitConverter (t @ ds) =
              Inl (UnknownUnit t)) \<and>
         (4300 < length ds \<longrightarrow>
            parse_simple_unit_with_dims cpow ChemEngUnitConverter (t @ ds) =
              Inl (ExceedsDigitLimit (length ds))) \<and>
         parse_simple_unit_with_dims cpow ChemEngUnitConverter t =
           Inr (temperature_scale t, [(DimTheta, 1)]) \<and>
         map_of (unit_dict ChemEngUnitConverter) t = None \<and>
         \<not> resolvable ChemEngUnitConverter t \<and>
         parse_simple_unit_with_dims cpow ChemEngUnitConverter ''degF2'' =
           Inl (UnknownUnit ''degF'') \<and>
         parse_simple_unit_with_dims cpow ChemEngUnitConverter ''K2'' =
           Inr (Fin 1, [(DimTheta, 2)]) \<and>
         map_of (unit_dict ChemEngUnitConverter) ''K'' = Some (Fin 1)"
proof -
  have t: "t = ''degC'' \<or> t = ''degF'' \<or> t = ''degR''"
    using assms(1) by simp
  then have nd: "t = [] \<or> \<not> isdigit (last t)"
    by (auto simp: isdigit_def)
  have "length (t @ ds) \<noteq> length ''1''"
    using t by auto
  then have n1: "t @ ds \<noteq> ''1''"
    by (metis (full_types))
  have unknown: "resolve_power cpow ChemEngUnitConverter t n = Inl (UnknownUnit t)" for n
    using t by (auto simp: resolve_power_def get_unit_factor_unknown)
  have 1: "length ds \<le> 4300 \<longrightarrow>
            parse_simple_unit_with_dims cpow ChemEngUnitConverter (t @ ds) =
              Inl (UnknownUnit t)"
  proof
    assume "length ds \<le> 4300"
    then have "length ds \<le> int_max_str_digits"
      by (simp add: int_max_str_digits_def)
    with assms(2,3) nd n1
    have "parse_simple_unit_with_dims cpow ChemEngUnitConverter (t @ ds) =
          resolve_power cpow ChemEngUnitConverter t (digits_value ds)"
      by (rule parse_simple_with_power)
    then show "parse_simple_unit_with_dims cpow ChemEngUnitConverter (t @ ds) =
              Inl (UnknownUnit t)"
      by (simp only: unknown)
  qed
  have 2: "4300 < length ds \<longrightarrow>
            parse_simple_unit_with_dims cpow ChemEngUnitConverter (t @ ds) =
              Inl (ExceedsDigitLimit (length ds))"
  proof
    assume "4300 < length ds"
    then have "int_max_str_digits < length ds"
      by (simp add: int_max_str_digits_def)
    with assms(3) show "parse_simple_unit_with_dims cpow ChemEngUnitConverter (t @ ds) =
              Inl (ExceedsDigitLimit (length ds))"
      using nd by (rule parse_simple_too_many_digits)
  qed
  have 3: "parse_simple_unit_with_dims cpow ChemEngUnitConverter t =
           Inr (temperature_scale t, [(DimTheta, 1)])"
    using t
    by (auto simp: parse_simple_unit_with_dims_def TEMPERATURE_UNITS_def temperature_scale_def)
  have 4: "map_of (unit_dict ChemEngUnitConverter) t = None"
    using t by (auto simp: unit_dict_fixed)
  have 5: "\<not> resolvable ChemEngUnitConverter t"
    using t by (auto simp: resolvable_def unit_dict_fixed PREFIXES_def startswith_def)
  have 8: "map_of (unit_dict ChemEngUnitConverter) ''K'' = Some (Fin 1)"
    by (simp add: unit_dict_fixed lit_def round64_values)
  show ?thesis
    by (intro conjI 1 2 3 4 5 8) (simp_all only: parse_simple_values)
qed

theorem C10_temperature_power_witness:
  "''degR'' \<in> {''degC'', ''degF'', ''degR''} \<and> ''12'' \<noteq> [] \<and> list_all ascii_digit ''12'' \<and>
   length ''12'' \<le> 4300 \<and>
   parse_simple_unit_with_dims pow_rounded ChemEngUnitConverter ''degR12'' =
     Inl (UnknownUnit ''degR'')"
proof -
  have a: "''degR'' \<in> {''degC'', ''degF'', ''degR''}" by simp
  have b: "''12'' \<noteq> []" by simp
  have c: "list_all ascii_digit ''12''" by (simp add: ascii_digit_def)
  show ?thesis
    using a b c C10_temperature_power [OF a b c, of pow_rounded] by simp
qed

theorem C10_counterexample:
  "list_all ascii_digit (replicate 4301 CHR ''0'') \<and>
   parse_simple_unit_with_dims pow_rounded ChemEngUnitConverter
     (''degF'' @ replicate 4301 CHR ''0'') = Inl (ExceedsDigitLimit 4301)"
proof -
  have a: "list_all ascii_digit (replicate 4301 CHR ''0'')"
    by (simp add: list_all_iff ascii_digit_def)
  have b: "int_max_str_digits < length (replicate 4301 CHR ''0'')"
    by (simp add: int_max_str_digits_def)
  have c: "''degF'' = [] \<or> \<not> isdigit (last ''degF'')"
    by (simp add: isdigit_def)
  have "parse_simple_unit_with_dims pow_rounded ChemEngUnitConverter
     (''degF'' @ replicate 4301 CHR ''0'') =
       Inl (ExceedsDigitLimit (length (replicate 4301 CHR ''0'')))"
    using a b c by (rule parse_simple_too_many_digits)
  with a show ?thesis
    by (simp only: length_replicate simp_thms)
qed

end
